theory Spec2Isabelle
  imports Main "HOL-Library.Word"
begin

section \<open>Zero-downtime restarts: package goagain\<close>

text \<open>
  The package exists in two generations. The first (with \<open>Strategy\<close>, \<open>Exec\<close>,
  \<open>ForkExec\<close>, \<open>Kill()\<close> and the signal loop \<open>Wait(l)\<close>) and the second, the
  bounded-wait one (\<open>Kill(sig)\<close>, \<open>forkExec\<close> and \<open>Wait(l, forkSignal, quitSignal,
  timeout)\<close>). \<open>Listener\<close>, \<open>setEnvs\<close> and \<open>lookPath\<close> are the same text in both.
  Functions of the second generation whose names clash with the first carry the suffix
  \<open>_bounded\<close>.
\<close>

subsection \<open>Errors\<close>

datatype error =
    EOF                          \<comment> \<open>\<open>io.EOF\<close>\<close>
  | ExpectedInteger              \<comment> \<open>fmt: "expected integer"\<close>
  | ErrRange                     \<comment> \<open>strconv: value out of range\<close>
  | EINVAL                       \<comment> \<open>\<open>syscall.EINVAL\<close>\<close>
  | EBADF                        \<comment> \<open>\<open>syscall.EBADF\<close>\<close>
  | ENOTSOCK                     \<comment> \<open>\<open>syscall.ENOTSOCK\<close>\<close>
  | CalledByChild                \<comment> \<open>"goagain.Exec called by a child process"\<close>
  | SetEnvsNotListener string    \<comment> \<open>"setEnvs: file descriptor is %T not ..."\<close>
  | NotListener string           \<comment> \<open>"file descriptor is %T not ..."\<close>
  | TimedOut                     \<comment> \<open>"Timed out waiting for child to send signal."\<close>
  | OSError string               \<comment> \<open>any other error of the operating system\<close>

subsection \<open>Signals\<close>

text \<open>\<open>syscall.Signal\<close> is an \<open>int\<close>; the numbers are those of Linux.\<close>

definition SIGHUP :: int where "SIGHUP = 1"
definition SIGINT :: int where "SIGINT = 2"
definition SIGQUIT :: int where "SIGQUIT = 3"
definition SIGUSR1 :: int where "SIGUSR1 = 10"
definition SIGUSR2 :: int where "SIGUSR2 = 12"
definition SIGTERM :: int where "SIGTERM = 15"

subsection \<open>Scanning and printing integers (package fmt)\<close>

text \<open>
  \<open>fmt.Sscan(str, &v)\<close> with one integer operand: white space is skipped, the end of the
  input there is \<open>io.EOF\<close>; a sign is accepted (signed operands only); a leading \<open>0\<close>
  selects base 8, a leading \<open>0x\<close> base 16; the digits that follow are the token, and
  what comes after the token is left unread. Without a digit the scan fails, with
  \<open>io.EOF\<close> when the input ends there and with "expected integer" otherwise. The token is
  converted with 64 bits; a value out of range is an error. On an error the operand
  keeps its value. (The prefixes are those of the Go releases of the time of the
  package; later releases also read the prefixes \<open>0b\<close> and \<open>0o\<close> and underscores
  between digits, and refuse a bare \<open>0x\<close>.)
\<close>

text \<open>
  The scanner reads runes, the strings are bytes in UTF-8. \<open>spaceRunes\<close> is the table
  \<open>space\<close> of fmt's \<open>isSpace\<close>, each rune by its UTF-8 encoding: U+0009 to U+000D,
  U+0020, U+0085, U+00A0, U+1680, U+2000 to U+200A, U+2028, U+2029, U+202F, U+205F and
  U+3000 (releases with older Unicode tables have U+180E too). The decoder accepts only
  the shortest encoding of a rune, so the rune at the head of a string is white space
  exactly when the string starts with one of these encodings; \<open>spaceWidth\<close> is then the
  number of its bytes, and 0 otherwise.
\<close>

definition spaceRunes :: "string list" where
  "spaceRunes =
     [[CHR 0x09], [CHR 0x0A], [CHR 0x0B], [CHR 0x0C], [CHR 0x0D], [CHR 0x20],
      [CHR 0xC2, CHR 0x85], [CHR 0xC2, CHR 0xA0],
      [CHR 0xE1, CHR 0x9A, CHR 0x80],
      [CHR 0xE2, CHR 0x80, CHR 0x80], [CHR 0xE2, CHR 0x80, CHR 0x81],
      [CHR 0xE2, CHR 0x80, CHR 0x82], [CHR 0xE2, CHR 0x80, CHR 0x83],
      [CHR 0xE2, CHR 0x80, CHR 0x84], [CHR 0xE2, CHR 0x80, CHR 0x85],
      [CHR 0xE2, CHR 0x80, CHR 0x86], [CHR 0xE2, CHR 0x80, CHR 0x87],
      [CHR 0xE2, CHR 0x80, CHR 0x88], [CHR 0xE2, CHR 0x80, CHR 0x89],
      [CHR 0xE2, CHR 0x80, CHR 0x8A],
      [CHR 0xE2, CHR 0x80, CHR 0xA8], [CHR 0xE2, CHR 0x80, CHR 0xA9],
      [CHR 0xE2, CHR 0x80, CHR 0xAF],
      [CHR 0xE2, CHR 0x81, CHR 0x9F],
      [CHR 0xE3, CHR 0x80, CHR 0x80]]"

definition spaceWidth :: "string \<Rightarrow> nat" where
  "spaceWidth s =
     (case find (\<lambda>enc. take (length enc) s = enc) spaceRunes of
        None \<Rightarrow> 0
      | Some enc \<Rightarrow> length enc)"

lemma spaceWidth_le: "spaceWidth s \<le> length s"
proof (cases "find (\<lambda>enc. take (length enc) s = enc) spaceRunes")
  case None
  then show ?thesis by (simp add: spaceWidth_def)
next
  case (Some enc)
  then have "take (length enc) s = enc" by (auto simp: find_Some_iff)
  then have "length enc \<le> length s" by (metis length_take min.cobounded1)
  with Some show ?thesis by (simp add: spaceWidth_def)
qed

text \<open>\<open>s.SkipSpace()\<close> (a newline is white space for \<open>Sscan\<close>).\<close>

function SkipSpace :: "string \<Rightarrow> string" where
  "SkipSpace s = (if spaceWidth s = 0 then s else SkipSpace (drop (spaceWidth s) s))"
  by pat_completeness auto
termination
proof (relation "measure length")
  show "wf (measure length)" by simp
next
  fix s :: string
  assume "spaceWidth s \<noteq> 0"
  with spaceWidth_le [of s] show "(drop (spaceWidth s) s, s) \<in> measure length"
    by auto
qed

declare SkipSpace.simps [simp del]

definition decimalDigits :: string where
  "decimalDigits = ''0123456789''"

definition digitVal :: "char \<Rightarrow> nat" where
  "digitVal c =
     (if c \<in> set ''0123456789'' then of_char c - 48
      else if c \<in> set ''abcdef'' then of_char c - 87
      else of_char c - 55)"

definition isDigit :: "nat \<Rightarrow> char \<Rightarrow> bool" where
  "isDigit base c \<longleftrightarrow>
     c \<in> set (if base = 8 then ''01234567''
               else if base = 16 then ''0123456789aAbBcCdDeEfF''
               else ''0123456789'')"

definition parseDigits :: "nat \<Rightarrow> string \<Rightarrow> nat" where
  "parseDigits base ds = foldl (\<lambda>acc c. acc * base + digitVal c) 0 ds"

text \<open>\<open>s.accept(sign)\<close>: whether a minus sign was read, and the rest.\<close>

definition acceptSign :: "string \<Rightarrow> bool \<times> string" where
  "acceptSign s =
     (case s of
        [] \<Rightarrow> (False, [])
      | c # r \<Rightarrow> if c = CHR ''+'' then (False, r)
                 else if c = CHR ''-'' then (True, r)
                 else (False, s))"

text \<open>\<open>scanBasePrefix\<close>: the base, whether a digit (the \<open>0\<close>) is already in the token,
  and the rest.\<close>

definition scanBasePrefix :: "string \<Rightarrow> nat \<times> bool \<times> string" where
  "scanBasePrefix s =
     (case s of
        [] \<Rightarrow> (10, False, [])
      | c # r \<Rightarrow>
          if c = CHR ''0'' then
            (case r of
               [] \<Rightarrow> (8, True, [])
             | x # r' \<Rightarrow> if x = CHR ''x'' \<or> x = CHR ''X'' then (16, True, r') else (8, True, r))
          else (10, False, s))"

definition scanNumber :: "nat \<Rightarrow> bool \<Rightarrow> string \<Rightarrow> error + string" where
  "scanNumber base haveDigits s =
     (if \<not> haveDigits \<and> s = [] then Inl EOF
      else if \<not> haveDigits \<and> \<not> isDigit base (hd s) then Inl ExpectedInteger
      else Inr (takeWhile (isDigit base) s))"

text \<open>Operands of type \<open>int\<close> and \<open>syscall.Signal\<close> (64 bits, signed).\<close>

definition Sscan_int :: "string \<Rightarrow> error + int" where
  "Sscan_int str =
     (let s1 = SkipSpace str in
      if s1 = [] then Inl EOF
      else
        let (neg, s2) = acceptSign s1;
            (base, haveDigits, s3) = scanBasePrefix s2
        in case scanNumber base haveDigits s3 of
             Inl e \<Rightarrow> Inl e
           | Inr tok \<Rightarrow>
               let v = int (parseDigits base tok);
                   i = (if neg then - v else v)
               in if - (2 ^ 63) \<le> i \<and> i < 2 ^ 63 then Inr i else Inl ErrRange)"

text \<open>Operands of type \<open>uintptr\<close> (64 bits, unsigned, no sign accepted).\<close>

definition Sscan_uintptr :: "string \<Rightarrow> error + 64 word" where
  "Sscan_uintptr str =
     (let s1 = SkipSpace str in
      if s1 = [] then Inl EOF
      else
        let (base, haveDigits, s3) = scanBasePrefix s1
        in case scanNumber base haveDigits s3 of
             Inl e \<Rightarrow> Inl e
           | Inr tok \<Rightarrow>
               let v = parseDigits base tok
               in if v < 2 ^ 64 then Inr (of_nat v) else Inl ErrRange)"

text \<open>\<open>fmt.Sprint\<close> and \<open>fmt.Sprintf("%d", _)\<close> of an integer: its decimal numeral.\<close>

function Sprint_nat :: "nat \<Rightarrow> string" where
  "Sprint_nat n =
     (if n < 10 then [decimalDigits ! n]
      else Sprint_nat (n div 10) @ [decimalDigits ! (n mod 10)])"
  by pat_completeness auto
termination
  by (relation "measure id") auto

declare Sprint_nat.simps [simp del]

definition Sprint_int :: "int \<Rightarrow> string" where
  "Sprint_int i = (if i < 0 then CHR ''-'' # Sprint_nat (nat (- i)) else Sprint_nat (nat i))"

subsection \<open>Listeners, descriptors and the state of the process\<close>

record Addr =
  Network :: string
  AddrString :: string

text \<open>A \<open>net.Listener\<close>: the two types the package accepts, and any other type (with
  its Go type name, as \<open>%T\<close> prints it).\<close>

datatype listener =
    TCPListener Addr
  | UnixListener Addr
  | OtherListener string Addr

fun Addr_of :: "listener \<Rightarrow> Addr" where
  "Addr_of (TCPListener a) = a"
| "Addr_of (UnixListener a) = a"
| "Addr_of (OtherListener t a) = a"

text \<open>What an open descriptor refers to: the socket under a listener (named by that
  listener), a socket with a local address of another family or kind, or something
  that is no socket.\<close>

datatype descriptor = SocketOf listener | PacketSocket | NotSocket

datatype logarg = LStr string | LInt int | LSig int | LErr error

text \<open>The effects of the process that other processes or the operator can see, in the
  order they happen.\<close>

datatype event =
    Setenv_ev string string                            \<comment> \<open>\<open>os.Setenv\<close> that succeeded\<close>
  | Log_ev "logarg list"                               \<comment> \<open>\<open>Logger.Println\<close>\<close>
  | Hook_ev int                                        \<comment> \<open>a hook called, by its signal\<close>
  | StartProcess_ev string string "64 word option list" \<comment> \<open>\<open>os.StartProcess\<close> called\<close>
  | Exec_ev string                                     \<comment> \<open>\<open>syscall.Exec\<close> called\<close>
  | Kill_ev int int                                    \<comment> \<open>\<open>syscall.Kill(pid, sig)\<close> called\<close>
  | Wait4_ev int                                       \<comment> \<open>\<open>go syscall.Wait4(pid, ...)\<close>\<close>
  | ProcessKill_ev int                                 \<comment> \<open>\<open>(*os.Process).Kill\<close> called\<close>
  | Close_ev "64 word"                                 \<comment> \<open>\<open>(*os.File).Close\<close>\<close>

record 'u world =
  environ :: "string \<rightharpoonup> string"
  fdtable :: "64 word \<rightharpoonup> descriptor"
  user :: 'u
  trace :: "event list"

text \<open>The answers of the operating system to the calls of one run.\<close>

record sys =
  Args :: "string list"
  Getpid :: int
  Getppid :: int
  LookPath :: "string \<Rightarrow> error + string"
  Stat :: "string \<Rightarrow> error option"
  Getwd :: "error + string"
  File :: "listener \<Rightarrow> error + 64 word"
  StartProcess :: "error + int"
  syscall_Exec :: "error option"
  syscall_Kill :: "int \<Rightarrow> int \<Rightarrow> error option"
  Process_Kill :: "int \<Rightarrow> error option"

datatype strategy = Single | Double

text \<open>The package variables of the first generation. A hook is a function of the
  listener that returns \<open>nil\<close> or an error and may change the state of the hosting
  program (\<open>user\<close>); \<open>Logger\<close> is whether the logger is not \<open>nil\<close>.\<close>

record 'u globals =
  Strategy :: strategy
  OnSIGHUP :: "(listener \<Rightarrow> 'u \<Rightarrow> error option \<times> 'u) option"
  OnSIGUSR1 :: "(listener \<Rightarrow> 'u \<Rightarrow> error option \<times> 'u) option"
  Logger :: bool

text \<open>A call returns, or panics (an index out of range).\<close>

datatype 'a outcome = Return 'a | Panic

definition emit :: "event \<Rightarrow> 'u world \<Rightarrow> 'u world" where
  "emit e w = w\<lparr>trace := trace w @ [e]\<rparr>"

definition logln :: "bool \<Rightarrow> logarg list \<Rightarrow> 'u world \<Rightarrow> 'u world" where
  "logln logger v w = (if logger then emit (Log_ev v) w else w)"

text \<open>\<open>os.Getenv\<close>: the empty string when the variable is not set.\<close>

definition Getenv :: "string \<Rightarrow> 'u world \<Rightarrow> string" where
  "Getenv k w = (case environ w k of None \<Rightarrow> [] | Some v \<Rightarrow> v)"

text \<open>\<open>os.Setenv\<close>: \<open>EINVAL\<close> for an empty key, a key with \<open>=\<close> or NUL, a value with NUL.\<close>

definition Setenv :: "string \<Rightarrow> string \<Rightarrow> 'u world \<Rightarrow> error option \<times> 'u world" where
  "Setenv k v w =
     (if k = [] \<or> CHR ''='' \<in> set k \<or> CHR 0x00 \<in> set k \<or> CHR 0x00 \<in> set v
      then (Some EINVAL, w)
      else (None, emit (Setenv_ev k v) (w\<lparr>environ := (environ w)(k \<mapsto> v)\<rparr>)))"

text \<open>\<open>os.NewFile\<close> is \<open>nil\<close> for a descriptor that is negative as an \<open>int\<close>.\<close>

definition NewFile :: "64 word \<Rightarrow> 64 word option" where
  "NewFile fd = (if sint fd < 0 then None else Some fd)"

text \<open>\<open>net.FileListener\<close>: the listener of the socket the file refers to. The library
  duplicates the descriptor (\<open>EBADF\<close> when it is not open), reads the type of the socket
  (\<open>ENOTSOCK\<close> when the descriptor is not a socket) and returns \<open>EINVAL\<close> for a socket
  whose local address is neither a TCP nor a unix address (\<open>PacketSocket\<close>). (The library
  returns a TCP or a unix listener or an error; here it may return a listener of
  another type too, which the type switch of \<open>Listener\<close> then refuses.) The nil file,
  which \<open>os.NewFile\<close> returns for a negative descriptor, has the descriptor -1 in the
  releases of the time of the package, and duplicating it fails with \<open>EBADF\<close>; a release
  that dereferences the file panics there instead.\<close>

definition FileListener :: "'u world \<Rightarrow> 64 word option \<Rightarrow> error + listener" where
  "FileListener w f =
     (case f of
        None \<Rightarrow> Inl EBADF
      | Some fd \<Rightarrow>
          (case fdtable w fd of
             None \<Rightarrow> Inl EBADF
           | Some NotSocket \<Rightarrow> Inl ENOTSOCK
           | Some PacketSocket \<Rightarrow> Inl EINVAL
           | Some (SocketOf l) \<Rightarrow> Inr l))"

definition Close :: "64 word option \<Rightarrow> 'u world \<Rightarrow> 'u world" where
  "Close f w =
     (case f of
        None \<Rightarrow> w
      | Some fd \<Rightarrow> emit (Close_ev fd) (w\<lparr>fdtable := (fdtable w)(fd := None)\<rparr>))"

subsection \<open>Listener handoff: \<open>setEnvs\<close> and \<open>Listener\<close> (both generations)\<close>

definition fdName :: "Addr \<Rightarrow> string" where
  "fdName addr = Network addr @ '':'' @ AddrString addr @ ''->''"

text \<open>\<open>setEnvs_File\<close> is the body of \<open>setEnvs\<close> in the two cases of its type switch
  that call \<open>t.File()\<close>. \<open>t.File()\<close> duplicates the descriptor of the listener: the new
  descriptor refers to the same socket. On an error after \<open>f.Fd()\<close> Go returns the
  descriptor beside the error; no caller reads it.\<close>

definition setEnvs_File :: "sys \<Rightarrow> listener \<Rightarrow> 'u world \<Rightarrow> (error + 64 word) \<times> 'u world" where
  "setEnvs_File s l w =
     (case File s l of
        Inl e \<Rightarrow> (Inl e, w)
      | Inr fd \<Rightarrow>
          let w0 = w\<lparr>fdtable := (fdtable w)(fd \<mapsto> SocketOf l)\<rparr> in
          (case Setenv ''GOAGAIN_FD'' (Sprint_nat (unat fd)) w0 of
             (Some e, w1) \<Rightarrow> (Inl e, w1)
           | (None, w1) \<Rightarrow>
               (case Setenv ''GOAGAIN_NAME'' (fdName (Addr_of l)) w1 of
                  (Some e, w2) \<Rightarrow> (Inl e, w2)
                | (None, w2) \<Rightarrow> (Inr fd, w2))))"

fun setEnvs :: "sys \<Rightarrow> listener \<Rightarrow> 'u world \<Rightarrow> (error + 64 word) \<times> 'u world" where
  "setEnvs s (TCPListener a) w = setEnvs_File s (TCPListener a) w"
| "setEnvs s (UnixListener a) w = setEnvs_File s (UnixListener a) w"
| "setEnvs s (OtherListener t a) w = (Inl (SetEnvsNotListener t), w)"

text \<open>\<open>Listener\<close> has the named results \<open>(l, err)\<close>; when the type switch refuses the
  listener, it returns both.\<close>

definition Listener :: "'u world \<Rightarrow> (listener option \<times> error option) \<times> 'u world" where
  "Listener w =
     (case Sscan_uintptr (Getenv ''GOAGAIN_FD'' w) of
        Inl e \<Rightarrow> ((None, Some e), w)
      | Inr fd \<Rightarrow>
          let fdf = NewFile fd;
              r = FileListener w fdf;
              w' = Close fdf w
          in (case r of
                Inl e \<Rightarrow> ((None, Some e), w')
              | Inr (TCPListener a) \<Rightarrow> ((Some (TCPListener a), None), w')
              | Inr (UnixListener a) \<Rightarrow> ((Some (UnixListener a), None), w')
              | Inr (OtherListener t a) \<Rightarrow>
                  ((Some (OtherListener t a), Some (NotListener t)), w')))"

subsection \<open>\<open>lookPath\<close> (both generations)\<close>

text \<open>\<open>exec.LookPath(os.Args[0])\<close>, then \<open>os.Stat\<close> of the path found; \<open>os.Args[0]\<close>
  panics on an empty \<open>os.Args\<close>. When \<open>os.Stat\<close> fails, Go returns the path beside the
  error; no caller reads it.\<close>

definition lookPath :: "sys \<Rightarrow> (error + string) outcome" where
  "lookPath s =
     (case Args s of
        [] \<Rightarrow> Panic
      | a # _ \<Rightarrow>
          Return (case LookPath s a of
                    Inl e \<Rightarrow> Inl e
                  | Inr argv0 \<Rightarrow> (case Stat s argv0 of Some e \<Rightarrow> Inl e | None \<Rightarrow> Inr argv0)))"

subsection \<open>The first generation: \<open>Exec\<close>, \<open>ForkExec\<close>, \<open>Kill\<close>, \<open>Wait\<close>\<close>

text \<open>The file table of the new process: \<open>make([]*os.File, fd+1)\<close> with the standard
  streams in the slots 0, 1, 2 and the listener's file in the slot \<open>fd\<close>. The
  assignments to the slots 0, 1, 2 panic when the slice is shorter than 3 (limits of
  the allocation are not modelled).\<close>

definition fileTable :: "64 word \<Rightarrow> 64 word option list outcome" where
  "fileTable fd =
     (if unat (fd + 1) < 3 then Panic
      else Return ((replicate (unat (fd + 1)) None)
                     [0 := Some 0, 1 := Some 1, 2 := Some 2, unat fd := NewFile fd]))"

datatype exec_outcome =
    Exec_returns error     \<comment> \<open>\<open>Exec\<close> returns an error\<close>
  | Exec_panics
  | Image_replaced         \<comment> \<open>\<open>syscall.Exec\<close> succeeded: the call never returns\<close>

definition Exec :: "'u globals \<Rightarrow> sys \<Rightarrow> listener \<Rightarrow> 'u world \<Rightarrow> exec_outcome \<times> 'u world" where
  "Exec g s l w =
     (let pid = (case Sscan_int (Getenv ''GOAGAIN_PID'' w) of Inl _ \<Rightarrow> 0 | Inr p \<Rightarrow> p) in
      if Getppid s = pid then (Exec_returns CalledByChild, w)
      else
        (case lookPath s of
           Panic \<Rightarrow> (Exec_panics, w)
         | Return (Inl e) \<Rightarrow> (Exec_returns e, w)
         | Return (Inr argv0) \<Rightarrow>
             (case setEnvs s l w of
                (Inl e, w1) \<Rightarrow> (Exec_returns e, w1)
              | (Inr fd, w1) \<Rightarrow>
                  (case Setenv ''GOAGAIN_SIGNAL'' (Sprint_int SIGQUIT) w1 of
                     (Some e, w2) \<Rightarrow> (Exec_returns e, w2)
                   | (None, w2) \<Rightarrow>
                       let w3 = emit (Exec_ev argv0)
                                  (logln (Logger g) [LStr ''re-executing'', LStr argv0] w2)
                       in (case syscall_Exec s of
                             Some e \<Rightarrow> (Exec_returns e, w3)
                           | None \<Rightarrow> (Image_replaced, w3))))))"

text \<open>\<open>ForkExec_spawn\<close> is \<open>ForkExec\<close> from the file table on: \<open>os.StartProcess\<close>, the
  log line and the successor-pid field.\<close>

definition ForkExec_spawn ::
    "'u globals \<Rightarrow> sys \<Rightarrow> string \<Rightarrow> string \<Rightarrow> 64 word \<Rightarrow> 'u world \<Rightarrow> error option outcome \<times> 'u world" where
  "ForkExec_spawn g s argv0 wd fd w =
     (case fileTable fd of
        Panic \<Rightarrow> (Panic, w)
      | Return files \<Rightarrow>
          let w1 = emit (StartProcess_ev argv0 wd files) w in
          (case StartProcess s of
             Inl e \<Rightarrow> (Return (Some e), w1)
           | Inr p \<Rightarrow>
               (case Setenv ''GOAGAIN_PID'' (Sprint_int p)
                       (logln (Logger g) [LStr ''spawned child'', LInt p] w1) of
                  (Some e, w2) \<Rightarrow> (Return (Some e), w2)
                | (None, w2) \<Rightarrow> (Return None, w2))))"

definition ForkExec :: "'u globals \<Rightarrow> sys \<Rightarrow> listener \<Rightarrow> 'u world \<Rightarrow> error option outcome \<times> 'u world" where
  "ForkExec g s l w =
     (case lookPath s of
        Panic \<Rightarrow> (Panic, w)
      | Return (Inl e) \<Rightarrow> (Return (Some e), w)
      | Return (Inr argv0) \<Rightarrow>
          (case Getwd s of
             Inl e \<Rightarrow> (Return (Some e), w)
           | Inr wd \<Rightarrow>
               (case setEnvs s l w of
                  (Inl e, w1) \<Rightarrow> (Return (Some e), w1)
                | (Inr fd, w1) \<Rightarrow>
                    (case Setenv ''GOAGAIN_PID'' [] w1 of
                       (Some e, w2) \<Rightarrow> (Return (Some e), w2)
                     | (None, w2) \<Rightarrow>
                         (case Setenv ''GOAGAIN_PPID'' (Sprint_int (Getpid s)) w2 of
                            (Some e, w3) \<Rightarrow> (Return (Some e), w3)
                          | (None, w3) \<Rightarrow>
                              let sig = (if Double = Strategy g then SIGUSR2 else SIGQUIT) in
                              (case Setenv ''GOAGAIN_SIGNAL'' (Sprint_int sig) w3 of
                                 (Some e, w4) \<Rightarrow> (Return (Some e), w4)
                               | (None, w4) \<Rightarrow> ForkExec_spawn g s argv0 wd fd w4))))))"

text \<open>The target of \<open>Kill\<close>: \<open>GOAGAIN_PID\<close>, and \<open>GOAGAIN_PPID\<close> when scanning the former
  is \<open>io.EOF\<close> (the same lines in both generations).\<close>

definition Kill_pid :: "'u world \<Rightarrow> error + int" where
  "Kill_pid w =
     (case Sscan_int (Getenv ''GOAGAIN_PID'' w) of
        Inl e \<Rightarrow> if e = EOF then Sscan_int (Getenv ''GOAGAIN_PPID'' w) else Inl e
      | Inr pid \<Rightarrow> Inr pid)"

definition Kill :: "'u globals \<Rightarrow> sys \<Rightarrow> 'u world \<Rightarrow> error option \<times> 'u world" where
  "Kill g s w =
     (case Kill_pid w of
        Inl e \<Rightarrow> (Some e, w)
      | Inr pid \<Rightarrow>
          let sig = (case Sscan_int (Getenv ''GOAGAIN_SIGNAL'' w) of
                       Inl _ \<Rightarrow> SIGQUIT
                     | Inr sg \<Rightarrow> sg);
              w1 = (if SIGQUIT = sig \<and> Double = Strategy g then emit (Wait4_ev pid) w else w);
              w2 = logln (Logger g) [LStr ''sending signal'', LSig sig, LStr ''to process'', LInt pid] w1
          in (syscall_Kill s pid sig, emit (Kill_ev pid sig) w2))"

text \<open>One hook call of the loop: the hook is called when it is registered; its error
  is logged and dropped.\<close>

definition callHook ::
    "bool \<Rightarrow> string \<Rightarrow> int \<Rightarrow> (listener \<Rightarrow> 'u \<Rightarrow> error option \<times> 'u) option \<Rightarrow> listener \<Rightarrow> 'u world \<Rightarrow> 'u world" where
  "callHook logger name sig hook l w =
     (case hook of
        None \<Rightarrow> w
      | Some h \<Rightarrow>
          let (r, u) = h l (user w);
              w1 = (emit (Hook_ev sig) w)\<lparr>user := u\<rparr>
          in (case r of
                None \<Rightarrow> w1
              | Some err \<Rightarrow> logln logger [LStr name, LErr err] w1))"

text \<open>The loop of \<open>Wait\<close> over the signals the channel delivers, in their order;
  \<open>forked\<close> is the local variable. \<open>None\<close>: the loop has taken every signal of the list
  and blocks on the channel.\<close>

fun Wait_loop ::
    "'u globals \<Rightarrow> sys \<Rightarrow> listener \<Rightarrow> bool \<Rightarrow> int list \<Rightarrow> 'u world
     \<Rightarrow> (int \<times> error option) outcome option \<times> 'u world" where
  "Wait_loop g s l forked [] w = (None, w)"
| "Wait_loop g s l forked (sig # sigs) w =
     (let w0 = logln (Logger g) [LSig sig] w in
      if sig = SIGHUP then
        Wait_loop g s l forked sigs (callHook (Logger g) ''OnSIGHUP:'' SIGHUP (OnSIGHUP g) l w0)
      else if sig = SIGINT then (Some (Return (SIGINT, None)), w0)
      else if sig = SIGQUIT then (Some (Return (SIGQUIT, None)), w0)
      else if sig = SIGTERM then (Some (Return (SIGTERM, None)), w0)
      else if sig = SIGUSR1 then
        Wait_loop g s l forked sigs (callHook (Logger g) ''OnSIGUSR1:'' SIGUSR1 (OnSIGUSR1 g) l w0)
      else if sig = SIGUSR2 then
        (if forked then (Some (Return (SIGUSR2, None)), w0)
         else
           (case ForkExec g s l w0 of
              (Panic, w1) \<Rightarrow> (Some Panic, w1)
            | (Return (Some err), w1) \<Rightarrow> (Some (Return (SIGUSR2, Some err)), w1)
            | (Return None, w1) \<Rightarrow> Wait_loop g s l True sigs w1))
      else Wait_loop g s l forked sigs w0)"

definition Wait ::
    "'u globals \<Rightarrow> sys \<Rightarrow> listener \<Rightarrow> int list \<Rightarrow> 'u world
     \<Rightarrow> (int \<times> error option) outcome option \<times> 'u world" where
  "Wait g s l sigs w = Wait_loop g s l False sigs w"

subsection \<open>The second generation: \<open>Kill\<close>, \<open>forkExec\<close>, \<open>Wait\<close> with a timeout\<close>

text \<open>The logger is the only package variable here; \<open>logger\<close> is whether it is not
  \<open>nil\<close>.\<close>

definition Kill_bounded :: "bool \<Rightarrow> sys \<Rightarrow> int \<Rightarrow> 'u world \<Rightarrow> error option \<times> 'u world" where
  "Kill_bounded logger s sig w =
     (case Kill_pid w of
        Inl e \<Rightarrow> (Some e, w)
      | Inr pid \<Rightarrow>
          let w1 = logln logger [LStr ''sending signal'', LSig sig, LStr ''to process'', LInt pid] w
          in (syscall_Kill s pid sig, emit (Kill_ev pid sig) w1))"

text \<open>\<open>forkExec\<close> returns \<open>(*os.Process, error)\<close>; the process is given by its pid. The
  parameter \<open>quitSignal\<close> is not used by the body. \<open>forkExec_spawn\<close> is \<open>forkExec\<close> from
  the file table on.\<close>

definition forkExec_spawn ::
    "bool \<Rightarrow> sys \<Rightarrow> string \<Rightarrow> string \<Rightarrow> 64 word \<Rightarrow> 'u world
     \<Rightarrow> (int option \<times> error option) outcome \<times> 'u world" where
  "forkExec_spawn logger s argv0 wd fd w =
     (case fileTable fd of
        Panic \<Rightarrow> (Panic, w)
      | Return files \<Rightarrow>
          let w1 = emit (StartProcess_ev argv0 wd files) w in
          (case StartProcess s of
             Inl e \<Rightarrow> (Return (None, Some e), w1)
           | Inr p \<Rightarrow>
               (case Setenv ''GOAGAIN_PID'' (Sprint_int p)
                       (logln logger [LStr ''spawned child'', LInt p] w1) of
                  (Some e, w2) \<Rightarrow> (Return (Some p, Some e), w2)
                | (None, w2) \<Rightarrow> (Return (Some p, None), w2))))"

definition forkExec ::
    "bool \<Rightarrow> sys \<Rightarrow> listener \<Rightarrow> int \<Rightarrow> 'u world
     \<Rightarrow> (int option \<times> error option) outcome \<times> 'u world" where
  "forkExec logger s l quitSignal w =
     (case lookPath s of
        Panic \<Rightarrow> (Panic, w)
      | Return (Inl e) \<Rightarrow> (Return (None, Some e), w)
      | Return (Inr argv0) \<Rightarrow>
          (case Getwd s of
             Inl e \<Rightarrow> (Return (None, Some e), w)
           | Inr wd \<Rightarrow>
               (case setEnvs s l w of
                  (Inl e, w1) \<Rightarrow> (Return (None, Some e), w1)
                | (Inr fd, w1) \<Rightarrow>
                    (case Setenv ''GOAGAIN_PID'' [] w1 of
                       (Some e, w2) \<Rightarrow> (Return (None, Some e), w2)
                     | (None, w2) \<Rightarrow>
                         (case Setenv ''GOAGAIN_PPID'' (Sprint_int (Getpid s)) w2 of
                            (Some e, w3) \<Rightarrow> (Return (None, Some e), w3)
                          | (None, w3) \<Rightarrow> forkExec_spawn logger s argv0 wd fd w3)))))"

text \<open>\<open>cp.Kill()\<close>; its error is logged and dropped.\<close>

definition killChild :: "bool \<Rightarrow> sys \<Rightarrow> string \<Rightarrow> int \<Rightarrow> 'u world \<Rightarrow> 'u world" where
  "killChild logger s msg p w =
     (let w1 = emit (ProcessKill_ev p) w in
      case Process_Kill s p of
        None \<Rightarrow> w1
      | Some kErr \<Rightarrow> logln logger [LStr msg, LErr kErr] w1)"

text \<open>What the two blocking points of \<open>Wait\<close> see in one run: whether the fork signal
  ever arrives on \<open>forkCh\<close>, and which case of the \<open>select\<close> is taken (the quit
  signal from the child, or the timer of \<open>time.After(timeout)\<close>). The parameter
  \<open>timeout\<close> enters the model through that choice only.\<close>

datatype selected = QuitSignal | TimerFired

record run =
  forkSignalArrives :: bool
  select :: selected

text \<open>\<open>None\<close>: the call blocks for ever on \<open>forkCh\<close>. (\<open>forkExec\<close> never returns a
  \<open>nil\<close> process without an error; \<open>cp.Kill()\<close> on it would be a \<open>nil\<close> dereference.)\<close>

definition Wait_bounded ::
    "bool \<Rightarrow> sys \<Rightarrow> run \<Rightarrow> listener \<Rightarrow> int \<Rightarrow> int \<Rightarrow> 'u world
     \<Rightarrow> error option outcome option \<times> 'u world" where
  "Wait_bounded logger s r l forkSignal quitSignal w =
     (let w0 = logln logger [LStr ''Waiting for fork signal from system...''] w in
      if \<not> forkSignalArrives r then (None, w0)
      else
        (case forkExec logger s l quitSignal w0 of
           (Panic, w1) \<Rightarrow> (Some Panic, w1)
         | (Return (cp, Some err), w1) \<Rightarrow>
             let w2 = logln logger [LErr err] w1;
                 w3 = (case cp of
                         None \<Rightarrow> w2
                       | Some p \<Rightarrow>
                           killChild logger s ''Unable to kill process after bad forkExec'' p w2)
             in (Some (Return (Some err)), w3)
         | (Return (cp, None), w1) \<Rightarrow>
             let w2 = logln logger [LStr ''Waiting for quit signal from child...''] w1 in
             (case select r of
                QuitSignal \<Rightarrow>
                  (Some (Return None),
                   logln logger [LStr ''Received quit signal from child.''] w2)
              | TimerFired \<Rightarrow>
                  let w3 = logln logger [LStr ''Received quit signal from child.''] w2 in
                  (case cp of
                     None \<Rightarrow> (Some Panic, w3)
                   | Some p \<Rightarrow>
                       (Some (Return (Some TimedOut)),
                        killChild logger s ''Unable to kill process after timeout'' p w3)))))"

subsection \<open>The process that \<open>os.StartProcess\<close> starts\<close>

text \<open>The new process has the environment of its parent at the call (\<open>os.Environ()\<close>)
  and, in each slot of the file table that is not \<open>nil\<close>, the parent's descriptor of
  that slot; every other descriptor is closed.\<close>

definition spawned :: "'u world \<Rightarrow> 64 word option list \<Rightarrow> 'u world" where
  "spawned w files =
     \<lparr>environ = environ w,
      fdtable = (\<lambda>n. if unat n < length files
                     then (case files ! unat n of None \<Rightarrow> None | Some m \<Rightarrow> fdtable w m)
                     else None),
      user = user w,
      trace = []\<rparr>"

subsection \<open>Observations on a trace\<close>

text \<open>The keys of the environment variables written, in the order of the writes; the
  events between two states of one run; the number of calls of \<open>os.StartProcess\<close>.\<close>

fun setenv_keys :: "event list \<Rightarrow> string list" where
  "setenv_keys [] = []"
| "setenv_keys (Setenv_ev k v # es) = k # setenv_keys es"
| "setenv_keys (e # es) = setenv_keys es"

definition new_trace :: "'u world \<Rightarrow> 'u world \<Rightarrow> event list" where
  "new_trace w w' = drop (length (trace w)) (trace w')"

fun is_spawn :: "event \<Rightarrow> bool" where
  "is_spawn (StartProcess_ev argv0 wd files) = True"
| "is_spawn e = False"

definition spawns :: "event list \<Rightarrow> nat" where
  "spawns evs = length (filter is_spawn evs)"

subsection \<open>Example runs\<close>

text \<open>Concrete answers of the operating system, package variables and worlds, on which
  the theorems below are evaluated.\<close>

definition sys0 :: sys where
  "sys0 = \<lparr>Args = [''./server''], Getpid = 100, Getppid = 1,
            LookPath = (\<lambda>a. Inr ''/srv/server''), Stat = (\<lambda>p. None), Getwd = Inr ''/srv'',
            File = (\<lambda>l. Inr 7), StartProcess = Inr 101, syscall_Exec = None,
            syscall_Kill = (\<lambda>p sg. None), Process_Kill = (\<lambda>p. None)\<rparr>"

definition globals0 :: "unit globals" where
  "globals0 = \<lparr>Strategy = Single, OnSIGHUP = None, OnSIGUSR1 = None, Logger = False\<rparr>"

definition env_world :: "(string \<times> string) list \<Rightarrow> unit world" where
  "env_world kvs = \<lparr>environ = map_of kvs, fdtable = Map.empty, user = (), trace = []\<rparr>"

text \<open>A successor just started by pid 100 with the single strategy.\<close>

definition child_world :: "unit world" where
  "child_world =
     env_world [(''GOAGAIN_FD'', ''7''), (''GOAGAIN_NAME'', ''tcp:127.0.0.1:48879->''),
                (''GOAGAIN_PID'', []), (''GOAGAIN_PPID'', ''100''), (''GOAGAIN_SIGNAL'', ''3'')]"

text \<open>The operating system as that successor (pid 101, child of pid 100) sees it.\<close>

definition sys_child :: sys where
  "sys_child = sys0\<lparr>Getpid := 101, Getppid := 100\<rparr>"

text \<open>A predecessor (pid 100) that has spawned pid 101 with the double strategy.\<close>

definition set_pid_world :: "unit world" where
  "set_pid_world =
     env_world [(''GOAGAIN_PID'', ''101''), (''GOAGAIN_PPID'', ''100''), (''GOAGAIN_SIGNAL'', ''12'')]"

definition blank_pid_world :: "unit world" where
  "blank_pid_world = env_world [(''GOAGAIN_PID'', '' ''), (''GOAGAIN_PPID'', ''100'')]"

text \<open>The successor-pid field holds the one rune U+0085 (next line), two bytes.\<close>

definition nel_pid_world :: "unit world" where
  "nel_pid_world = env_world [(''GOAGAIN_PID'', [CHR 0xC2, CHR 0x85]), (''GOAGAIN_PPID'', ''100'')]"

definition bad_pid_world :: "unit world" where
  "bad_pid_world = env_world [(''GOAGAIN_PID'', ''abc''), (''GOAGAIN_PPID'', ''100'')]"

text \<open>A listener on a TCP port, a listener of a type the package does not accept, the
  double strategy, an operating system that cannot start a process, and the file table
  for the descriptor 7.\<close>

definition tcp0 :: listener where
  "tcp0 = TCPListener \<lparr>Network = ''tcp'', AddrString = ''127.0.0.1:48879''\<rparr>"

definition tls0 :: listener where
  "tls0 = OtherListener ''*tls.listener'' \<lparr>Network = ''tcp'', AddrString = ''[::]:443''\<rparr>"

definition globalsD :: "unit globals" where
  "globalsD = globals0\<lparr>Strategy := Double\<rparr>"

definition sys_nostart :: sys where
  "sys_nostart = sys0\<lparr>StartProcess := Inl (OSError ''fork/exec /srv/server: resource temporarily unavailable'')\<rparr>"

definition files7 :: "64 word option list" where
  "files7 = [Some 0, Some 1, Some 2, None, None, None, None, Some 7]"




definition run_timeout :: run where
  "run_timeout = \<lparr>forkSignalArrives = True, select = TimerFired\<rparr>"

text \<open>A process that has inherited the descriptor 7 of a listener and the number 7 in
  \<open>GOAGAIN_FD\<close>.\<close>

definition inherited_world :: "listener \<Rightarrow> unit world" where
  "inherited_world l =
     \<lparr>environ = [''GOAGAIN_FD'' \<mapsto> ''7''], fdtable = [7 \<mapsto> SocketOf l], user = (), trace = []\<rparr>"

section \<open>Properties\<close>

subsection \<open>Scanning and printing\<close>

lemmas scan_defs = Sscan_int_def Sscan_uintptr_def SkipSpace.simps spaceWidth_def spaceRunes_def
  acceptSign_def scanBasePrefix_def scanNumber_def isDigit_def parseDigits_def digitVal_def


lemmas signal_defs = SIGHUP_def SIGINT_def SIGQUIT_def SIGUSR1_def SIGUSR2_def SIGTERM_def

lemma SkipSpace_Nil: "SkipSpace [] = []"
  by (simp add: SkipSpace.simps spaceWidth_def spaceRunes_def)

text \<open>No white-space rune starts with a byte other than these.\<close>

lemma spaceWidth_hd:
  "c \<notin> set [CHR 0x09, CHR 0x0A, CHR 0x0B, CHR 0x0C, CHR 0x0D, CHR 0x20,
              CHR 0xC2, CHR 0xE1, CHR 0xE2, CHR 0xE3]
   \<Longrightarrow> spaceWidth (c # cs) = 0"
  by (auto simp: spaceWidth_def spaceRunes_def)

lemma Sscan_int_empty: "Sscan_int [] = Inl EOF"
  by (simp add: Sscan_int_def SkipSpace_Nil)

lemma parseDigits_snoc: "parseDigits b (ds @ [c]) = parseDigits b ds * b + digitVal c"
  by (simp add: parseDigits_def)

lemma digit_nth: "d < 10 \<Longrightarrow> digitVal (decimalDigits ! d) = d \<and> isDigit 10 (decimalDigits ! d)
   \<and> decimalDigits ! d \<noteq> CHR ''+'' \<and> decimalDigits ! d \<noteq> CHR ''-'' \<and> (decimalDigits ! d = CHR ''0'' \<longleftrightarrow> d = 0)"
proof -
  assume "d < 10"
  then consider "d = 0" | "d = 1" | "d = 2" | "d = 3" | "d = 4" | "d = 5" | "d = 6" | "d = 7" | "d = 8" | "d = 9"
    by atomize_elim arith
  then show ?thesis
    by cases (simp_all add: decimalDigits_def digitVal_def isDigit_def)
qed

lemma Sprint_nat_small: "n < 10 \<Longrightarrow> Sprint_nat n = [decimalDigits ! n]"
  by (simp add: Sprint_nat.simps)

lemma Sprint_nat_big: "\<not> n < 10 \<Longrightarrow> Sprint_nat n = Sprint_nat (n div 10) @ [decimalDigits ! (n mod 10)]"
  by (subst Sprint_nat.simps) simp

lemma Sprint_nat_nonempty: "Sprint_nat n \<noteq> []"
  by (cases "n < 10") (simp_all add: Sprint_nat_small Sprint_nat_big)

lemma Sprint_nat_digits: "\<forall>c\<in>set (Sprint_nat n). isDigit 10 c"
proof (induction n rule: Sprint_nat.induct)
  case (1 n)
  show ?case
  proof (cases "n < 10")
    case True
    then show ?thesis by (simp add: Sprint_nat_small digit_nth)
  next
    case False
    with 1 show ?thesis by (simp add: Sprint_nat_big digit_nth)
  qed
qed

lemma parseDigits_Sprint_nat: "parseDigits 10 (Sprint_nat n) = n"
proof (induction n rule: Sprint_nat.induct)
  case (1 n)
  show ?case
  proof (cases "n < 10")
    case True
    then show ?thesis by (simp add: Sprint_nat_small digit_nth parseDigits_def)
  next
    case False
    with 1 show ?thesis by (simp add: Sprint_nat_big digit_nth parseDigits_snoc)
  qed
qed

lemma hd_Sprint_nat: "hd (Sprint_nat n) = CHR ''0'' \<longleftrightarrow> n = 0"
proof (induction n rule: Sprint_nat.induct)
  case (1 n)
  show ?case
  proof (cases "n < 10")
    case True
    then show ?thesis by (simp add: Sprint_nat_small digit_nth)
  next
    case False
    with 1 show ?thesis by (simp add: Sprint_nat_big Sprint_nat_nonempty)
  qed
qed

lemma hd_Sprint_nat_digit: "isDigit 10 (hd (Sprint_nat n))"
  using Sprint_nat_digits [of n] Sprint_nat_nonempty [of n] by (cases "Sprint_nat n") auto

lemma isDigit_not_space: "isDigit 10 c \<Longrightarrow> spaceWidth (c # cs) = 0"
  by (rule spaceWidth_hd) (auto simp: isDigit_def)

lemma takeWhile_Sprint_nat: "takeWhile (isDigit 10) (Sprint_nat n) = Sprint_nat n"
  using Sprint_nat_digits [of n] by (simp add: takeWhile_eq_all_conv)

lemma SkipSpace_Sprint_nat: "SkipSpace (Sprint_nat n) = Sprint_nat n"
proof (cases "Sprint_nat n")
  case Nil
  then show ?thesis by (simp add: SkipSpace_Nil)
next
  case (Cons c cs)
  with hd_Sprint_nat_digit [of n] have "spaceWidth (c # cs) = 0"
    by (simp add: isDigit_not_space)
  with Cons show ?thesis by (simp add: SkipSpace.simps)
qed

lemma Sprint_nat_0: "Sprint_nat 0 = ''0''"
  by (simp add: Sprint_nat_small decimalDigits_def)

lemma scan_Sprint_nat:
  "(case scanBasePrefix (Sprint_nat n) of (base, have, s3) \<Rightarrow>
      case scanNumber base have s3 of Inl e \<Rightarrow> None | Inr tok \<Rightarrow> Some (parseDigits base tok)) = Some n"
proof (cases "n = 0")
  case True
  then show ?thesis
    by (simp add: Sprint_nat_0 scanBasePrefix_def scanNumber_def parseDigits_def)
next
  case False
  then have h: "hd (Sprint_nat n) \<noteq> CHR ''0''" by (simp add: hd_Sprint_nat)
  obtain c r where cr: "Sprint_nat n = c # r"
    using Sprint_nat_nonempty [of n] by (cases "Sprint_nat n") auto
  with h have "scanBasePrefix (Sprint_nat n) = (10, False, Sprint_nat n)"
    by (simp add: scanBasePrefix_def)
  moreover have "scanNumber 10 False (Sprint_nat n) = Inr (Sprint_nat n)"
    using hd_Sprint_nat_digit [of n] Sprint_nat_nonempty [of n]
    by (simp add: scanNumber_def takeWhile_Sprint_nat)
  ultimately show ?thesis by (simp add: parseDigits_Sprint_nat)
qed

lemma Sscan_uintptr_Sprint: "Sscan_uintptr (Sprint_nat (unat fd)) = Inr fd"
proof -
  have "unat fd < 2 ^ 64" using unsigned_less [of fd] by simp
  then show ?thesis
    using scan_Sprint_nat [of "unat fd"]
    by (auto simp: Sscan_uintptr_def SkipSpace_Sprint_nat Sprint_nat_nonempty Let_def
             split: prod.splits sum.splits)
qed

lemma scanNumber_EOF: "scanNumber base have s = Inl EOF \<longleftrightarrow> \<not> have \<and> s = []"
  by (simp add: scanNumber_def)

lemma scanBasePrefix_nil: "scanBasePrefix s = (b, h, []) \<and> \<not> h \<longleftrightarrow> s = [] \<and> b = 10 \<and> \<not> h"
  by (auto simp: scanBasePrefix_def split: list.splits if_splits)

text \<open>Scanning is \<open>io.EOF\<close> exactly on an input that, after its white space, is empty
  or a lone sign.\<close>

lemma Sscan_int_EOF_iff:
  "Sscan_int str = Inl EOF \<longleftrightarrow> SkipSpace str \<in> {[], ''+'', ''-''}"
proof (cases "SkipSpace str")
  case Nil
  then show ?thesis by (simp add: Sscan_int_def)
next
  case (Cons c r)
  obtain neg s2 where a: "acceptSign (c # r) = (neg, s2)" by (cases "acceptSign (c # r)")
  obtain b h s3 where p: "scanBasePrefix s2 = (b, h, s3)" by (cases "scanBasePrefix s2")
  have "Sscan_int str = Inl EOF \<longleftrightarrow> scanNumber b h s3 = Inl EOF"
    using Cons a p by (simp add: Sscan_int_def Let_def split: sum.splits)
  also have "\<dots> \<longleftrightarrow> s2 = []"
    using p scanBasePrefix_nil [of s2 b h] by (auto simp: scanNumber_EOF scanBasePrefix_def)
  also have "\<dots> \<longleftrightarrow> c # r \<in> {''+'', ''-''}"
    using a by (auto simp: acceptSign_def split: if_splits)
  finally show ?thesis using Cons by simp
qed

lemma scan_blank: "Sscan_int '' '' = Inl EOF"
  by (simp add: scan_defs)

lemma scan_abc: "Sscan_int ''abc'' = Inl ExpectedInteger"
  by (simp add: scan_defs)

lemma scan_12: "Sscan_int ''12'' = Inr 12"
  by (simp add: scan_defs)

lemma scan_100: "Sscan_int ''100'' = Inr 100"
  by (simp add: scan_defs)

lemma scan_101: "Sscan_int ''101'' = Inr 101"
  by (simp add: scan_defs)

subsection \<open>\<open>Kill\<close>: the target and the signal\<close>

lemma Getenv_env_world: "Getenv k (env_world kvs) = (case map_of kvs k of None \<Rightarrow> [] | Some v \<Rightarrow> v)"
  by (simp add: Getenv_def env_world_def)

text \<open>
  Claim C4, as amended. In both generations \<open>Kill\<close> takes its target from the
  successor-pid field \<open>GOAGAIN_PID\<close> when that scans as an integer, falls back to the
  predecessor-pid field \<open>GOAGAIN_PPID\<close> when the successor-pid field is unset or empty,
  and returns the error, sending nothing, when no pid comes out of the two fields. In
  the first generation the signal is the one scanned from the handshake-signal field
  \<open>GOAGAIN_SIGNAL\<close>, and \<open>SIGQUIT\<close> when that field is absent or does not scan. In the
  second generation the signal is the argument of the caller, whatever the
  handshake-signal field holds.
\<close>

theorem Kill_target_and_signal:
  "(Sscan_int (Getenv ''GOAGAIN_PID'' w) = Inr p \<longrightarrow> Kill_pid w = Inr p)
   \<and> (Getenv ''GOAGAIN_PID'' w = [] \<longrightarrow> Kill_pid w = Sscan_int (Getenv ''GOAGAIN_PPID'' w))
   \<and> (Kill_pid w = Inl e \<longrightarrow>
        Kill g s w = (Some e, w) \<and> Kill_bounded lg s sg w = (Some e, w))
   \<and> (Kill_pid w = Inr pid \<and> Sscan_int (Getenv ''GOAGAIN_SIGNAL'' w) = Inr x \<longrightarrow>
        fst (Kill g s w) = syscall_Kill s pid x
        \<and> last (trace (snd (Kill g s w))) = Kill_ev pid x)
   \<and> (Kill_pid w = Inr pid \<and> Sscan_int (Getenv ''GOAGAIN_SIGNAL'' w) = Inl e' \<longrightarrow>
        fst (Kill g s w) = syscall_Kill s pid SIGQUIT
        \<and> last (trace (snd (Kill g s w))) = Kill_ev pid SIGQUIT)
   \<and> (environ w ''GOAGAIN_SIGNAL'' = None \<longrightarrow>
        Sscan_int (Getenv ''GOAGAIN_SIGNAL'' w) = Inl EOF)
   \<and> (Kill_pid w = Inr pid \<longrightarrow>
        fst (Kill_bounded lg s sg w) = syscall_Kill s pid sg
        \<and> last (trace (snd (Kill_bounded lg s sg w))) = Kill_ev pid sg)"
proof (intro conjI impI)
  assume "Sscan_int (Getenv ''GOAGAIN_PID'' w) = Inr p"
  then show "Kill_pid w = Inr p"
    by (simp add: Kill_pid_def)
next
  assume "Getenv ''GOAGAIN_PID'' w = []"
  then show "Kill_pid w = Sscan_int (Getenv ''GOAGAIN_PPID'' w)"
    by (simp add: Kill_pid_def Sscan_int_empty)
next
  assume k: "Kill_pid w = Inl e"
  from k show "Kill g s w = (Some e, w)"
    by (simp add: Kill_def)
  from k show "Kill_bounded lg s sg w = (Some e, w)"
    by (simp add: Kill_bounded_def)
next
  assume a: "Kill_pid w = Inr pid \<and> Sscan_int (Getenv ''GOAGAIN_SIGNAL'' w) = Inr x"
  from a show "fst (Kill g s w) = syscall_Kill s pid x"
    by (simp add: Kill_def Let_def)
  from a show "last (trace (snd (Kill g s w))) = Kill_ev pid x"
    by (simp add: Kill_def Let_def emit_def)
next
  assume a: "Kill_pid w = Inr pid \<and> Sscan_int (Getenv ''GOAGAIN_SIGNAL'' w) = Inl e'"
  from a show "fst (Kill g s w) = syscall_Kill s pid SIGQUIT"
    by (simp add: Kill_def Let_def)
  from a show "last (trace (snd (Kill g s w))) = Kill_ev pid SIGQUIT"
    by (simp add: Kill_def Let_def emit_def)
next
  assume "environ w ''GOAGAIN_SIGNAL'' = None"
  then show "Sscan_int (Getenv ''GOAGAIN_SIGNAL'' w) = Inl EOF"
    by (simp add: Getenv_def Sscan_int_empty)
next
  assume k: "Kill_pid w = Inr pid"
  from k show "fst (Kill_bounded lg s sg w) = syscall_Kill s pid sg"
    by (simp add: Kill_bounded_def Let_def)
  from k show "last (trace (snd (Kill_bounded lg s sg w))) = Kill_ev pid sg"
    by (simp add: Kill_bounded_def Let_def emit_def)
qed

text \<open>The theorem on a predecessor that kills its successor (pid 101, signal 12 from
  the field), on a successor that kills its predecessor (pid 100 by the fallback), and
  on an environment with no field at all (\<open>io.EOF\<close>, nothing sent).\<close>

theorem Kill_target_and_signal_witness:
  "Kill_pid set_pid_world = Inr 101
   \<and> fst (Kill globals0 sys0 set_pid_world) = None
   \<and> last (trace (snd (Kill globals0 sys0 set_pid_world))) = Kill_ev 101 12
   \<and> last (trace (snd (Kill_bounded False sys0 SIGTERM set_pid_world))) = Kill_ev 101 SIGTERM
   \<and> Kill_pid child_world = Inr 100
   \<and> last (trace (snd (Kill globals0 sys0 (env_world [(''GOAGAIN_PPID'', ''100'')]))))
       = Kill_ev 100 SIGQUIT
   \<and> Kill globals0 sys0 (env_world []) = (Some EOF, env_world [])
   \<and> Kill_bounded False sys0 SIGTERM (env_world []) = (Some EOF, env_world [])"
proof -
  have a: "Sscan_int (Getenv ''GOAGAIN_PID'' set_pid_world) = Inr 101"
    by (simp add: set_pid_world_def Getenv_env_world scan_101)
  have b: "Sscan_int (Getenv ''GOAGAIN_SIGNAL'' set_pid_world) = Inr 12"
    by (simp add: set_pid_world_def Getenv_env_world scan_12)
  have c: "Getenv ''GOAGAIN_PID'' child_world = []"
    by (simp add: child_world_def Getenv_env_world)
  have d: "Sscan_int (Getenv ''GOAGAIN_PPID'' child_world) = Inr 100"
    by (simp add: child_world_def Getenv_env_world scan_100)
  let ?w = "env_world [(''GOAGAIN_PPID'', ''100'')]"
  have e: "Getenv ''GOAGAIN_PID'' ?w = []" "Sscan_int (Getenv ''GOAGAIN_PPID'' ?w) = Inr 100"
    "environ ?w ''GOAGAIN_SIGNAL'' = None"
    by (simp_all add: Getenv_def scan_100 env_world_def)
  have f: "Getenv ''GOAGAIN_PID'' (env_world []) = []"
    "Sscan_int (Getenv ''GOAGAIN_PPID'' (env_world [])) = Inl EOF"
    by (simp_all add: Getenv_env_world Sscan_int_empty)
  have k1: "Kill_pid set_pid_world = Inr 101"
    using Kill_target_and_signal [of set_pid_world 101] a by simp
  have k2: "Kill_pid child_world = Inr 100"
    using Kill_target_and_signal [of child_world] c d by simp
  have k3: "Kill_pid ?w = Inr 100"
    using Kill_target_and_signal [of ?w] e by simp
  have k4: "Kill_pid (env_world []) = Inl EOF"
    using Kill_target_and_signal [of "env_world []"] f by simp
  show ?thesis
    using k1 k2
      Kill_target_and_signal [where w = set_pid_world and g = globals0 and s = sys0
        and lg = False and sg = SIGTERM and pid = 101 and x = 12] k1 b
      Kill_target_and_signal [where w = ?w and g = globals0 and s = sys0
        and lg = False and sg = SIGTERM and pid = 100 and e' = EOF] k3 e
      Kill_target_and_signal [where w = "env_world []" and e = EOF and g = globals0
        and s = sys0 and lg = False and sg = SIGTERM] k4
    by (simp add: sys0_def)
qed

text \<open>Claim C4 as it is stated fails on the second generation: with the handshake-signal
  field holding 12 (\<open>SIGUSR2\<close>), \<open>Kill(SIGTERM)\<close> sends \<open>SIGTERM\<close>, neither the signal of
  the field nor \<open>SIGQUIT\<close>.\<close>

theorem Kill_bounded_signal_counterexample:
  "Sscan_int (Getenv ''GOAGAIN_SIGNAL'' set_pid_world) = Inr SIGUSR2
   \<and> Kill_bounded False sys0 SIGTERM set_pid_world
       = (None, emit (Kill_ev 101 SIGTERM) set_pid_world)
   \<and> SIGTERM \<noteq> SIGUSR2 \<and> SIGTERM \<noteq> SIGQUIT"
  by (simp add: set_pid_world_def Getenv_env_world scan_12 scan_101 Kill_bounded_def Kill_pid_def
      sys0_def logln_def signal_defs)

text \<open>
  Claim C10, as amended. In \<open>Kill\<close> (both generations) the predecessor-pid field is
  consulted exactly when scanning the successor-pid field yields \<open>io.EOF\<close>, which is the
  case when the field, after its leading white space (the white space of the scanner,
  Unicode white space included), is empty (unset included) or a lone sign. When the
  scan succeeds, the pid is the one scanned; when it fails with any other error, \<open>Kill\<close>
  returns that error and nothing is sent, whatever the predecessor-pid field holds.
\<close>

theorem Kill_fallback_on_EOF:
  "(Sscan_int (Getenv ''GOAGAIN_PID'' w) = Inl EOF \<longrightarrow>
      Kill_pid w = Sscan_int (Getenv ''GOAGAIN_PPID'' w))
   \<and> (Sscan_int (Getenv ''GOAGAIN_PID'' w) = Inr p \<longrightarrow> Kill_pid w = Inr p)
   \<and> (Sscan_int (Getenv ''GOAGAIN_PID'' w) = Inl e \<and> e \<noteq> EOF \<longrightarrow>
        Kill_pid w = Inl e
        \<and> Kill g s (w\<lparr>environ := (environ w)(''GOAGAIN_PPID'' := v)\<rparr>)
            = (Some e, w\<lparr>environ := (environ w)(''GOAGAIN_PPID'' := v)\<rparr>)
        \<and> Kill_bounded lg s sg (w\<lparr>environ := (environ w)(''GOAGAIN_PPID'' := v)\<rparr>)
            = (Some e, w\<lparr>environ := (environ w)(''GOAGAIN_PPID'' := v)\<rparr>))
   \<and> (Sscan_int (Getenv ''GOAGAIN_PID'' w) = Inl EOF
        \<longleftrightarrow> SkipSpace (Getenv ''GOAGAIN_PID'' w) \<in> {[], ''+'', ''-''})"
proof (intro conjI impI)
  assume "Sscan_int (Getenv ''GOAGAIN_PID'' w) = Inl EOF"
  then show "Kill_pid w = Sscan_int (Getenv ''GOAGAIN_PPID'' w)"
    by (simp add: Kill_pid_def)
next
  assume "Sscan_int (Getenv ''GOAGAIN_PID'' w) = Inr p"
  then show "Kill_pid w = Inr p"
    by (simp add: Kill_pid_def)
next
  let ?w = "w\<lparr>environ := (environ w)(''GOAGAIN_PPID'' := v)\<rparr>"
  assume a: "Sscan_int (Getenv ''GOAGAIN_PID'' w) = Inl e \<and> e \<noteq> EOF"
  then show "Kill_pid w = Inl e"
    by (simp add: Kill_pid_def)
  have "Getenv ''GOAGAIN_PID'' ?w = Getenv ''GOAGAIN_PID'' w"
    by (simp add: Getenv_def)
  with a have k: "Kill_pid ?w = Inl e"
    by (simp add: Kill_pid_def)
  from k show "Kill g s ?w = (Some e, ?w)"
    by (simp add: Kill_def)
  from k show "Kill_bounded lg s sg ?w = (Some e, ?w)"
    by (simp add: Kill_bounded_def)
next
  show "Sscan_int (Getenv ''GOAGAIN_PID'' w) = Inl EOF
        \<longleftrightarrow> SkipSpace (Getenv ''GOAGAIN_PID'' w) \<in> {[], ''+'', ''-''}"
    by (rule Sscan_int_EOF_iff)
qed

theorem Kill_fallback_on_EOF_witness:
  "Kill_pid child_world = Inr 100
   \<and> Kill_pid set_pid_world = Inr 101
   \<and> Kill_pid bad_pid_world = Inl ExpectedInteger
   \<and> Kill globals0 sys0 (bad_pid_world\<lparr>environ := (environ bad_pid_world)(''GOAGAIN_PPID'' := None)\<rparr>)
       = (Some ExpectedInteger,
          bad_pid_world\<lparr>environ := (environ bad_pid_world)(''GOAGAIN_PPID'' := None)\<rparr>)
   \<and> Getenv ''GOAGAIN_PID'' nel_pid_world = [CHR 0xC2, CHR 0x85]
   \<and> Sscan_int (Getenv ''GOAGAIN_PID'' nel_pid_world) = Inl EOF
   \<and> Kill_pid nel_pid_world = Inr 100
   \<and> Sscan_int (Getenv ''GOAGAIN_PID'' bad_pid_world) \<noteq> Inl EOF"
proof -
  have c: "Sscan_int (Getenv ''GOAGAIN_PID'' child_world) = Inl EOF"
    by (simp add: child_world_def Getenv_env_world Sscan_int_empty)
  have p: "Sscan_int (Getenv ''GOAGAIN_PPID'' child_world) = Inr 100"
    by (simp add: child_world_def Getenv_env_world scan_100)
  have s: "Sscan_int (Getenv ''GOAGAIN_PID'' set_pid_world) = Inr 101"
    by (simp add: set_pid_world_def Getenv_env_world scan_101)
  have b: "Sscan_int (Getenv ''GOAGAIN_PID'' bad_pid_world) = Inl ExpectedInteger
           \<and> ExpectedInteger \<noteq> EOF"
    by (simp add: bad_pid_world_def Getenv_env_world scan_abc)
  have n: "Getenv ''GOAGAIN_PID'' nel_pid_world = [CHR 0xC2, CHR 0x85]"
    by (simp add: nel_pid_world_def Getenv_env_world)
  have n': "SkipSpace (Getenv ''GOAGAIN_PID'' nel_pid_world) = []"
    unfolding n by (simp add: SkipSpace.simps spaceWidth_def spaceRunes_def)
  have np: "Sscan_int (Getenv ''GOAGAIN_PPID'' nel_pid_world) = Inr 100"
    by (simp add: nel_pid_world_def Getenv_env_world scan_100)
  have a': "SkipSpace (Getenv ''GOAGAIN_PID'' bad_pid_world) = ''abc''"
    by (simp add: bad_pid_world_def Getenv_env_world SkipSpace.simps spaceWidth_def spaceRunes_def)
  have ne: "Sscan_int (Getenv ''GOAGAIN_PID'' nel_pid_world) = Inl EOF"
    using Kill_fallback_on_EOF [of nel_pid_world] n' by simp
  have nk: "Kill_pid nel_pid_world = Inr 100"
    using Kill_fallback_on_EOF [of nel_pid_world] ne np by simp
  have be: "Sscan_int (Getenv ''GOAGAIN_PID'' bad_pid_world) \<noteq> Inl EOF"
    using Kill_fallback_on_EOF [of bad_pid_world] a' by simp
  show ?thesis
    using Kill_fallback_on_EOF [of child_world] Kill_fallback_on_EOF [of set_pid_world 101]
      Kill_fallback_on_EOF [where w = bad_pid_world and e = ExpectedInteger and g = globals0
        and s = sys0 and v = None] c p s b n ne nk be
    by simp
qed

text \<open>Claim C10 as it is stated fails on a successor-pid field that is not empty and
  holds no integer, a single blank: the scan is \<open>io.EOF\<close>, and \<open>Kill\<close> signals the pid
  of the predecessor-pid field instead of returning a parse error.\<close>

theorem Kill_blank_pid_counterexample:
  "Getenv ''GOAGAIN_PID'' blank_pid_world = '' ''
   \<and> Sscan_int '' '' = Inl EOF
   \<and> Kill globals0 sys0 blank_pid_world = (None, emit (Kill_ev 100 SIGQUIT) blank_pid_world)
   \<and> Kill_bounded False sys0 SIGQUIT blank_pid_world
       = (None, emit (Kill_ev 100 SIGQUIT) blank_pid_world)"
  by (simp add: blank_pid_world_def Getenv_env_world scan_blank scan_100 Kill_def
      Kill_bounded_def Kill_pid_def Sscan_int_empty globals0_def sys0_def logln_def)

subsection \<open>The environment and the handoff, step by step\<close>

lemma no_NUL_Sprint_nat: "CHR 0x00 \<notin> set (Sprint_nat n)"
proof
  assume "CHR 0x00 \<in> set (Sprint_nat n)"
  with Sprint_nat_digits [of n] have "isDigit 10 (CHR 0x00)" by blast
  then show False by (simp add: isDigit_def)
qed

lemma no_NUL_Sprint_int: "CHR 0x00 \<notin> set (Sprint_int i)"
  by (simp add: Sprint_int_def no_NUL_Sprint_nat)

lemma Setenv_ok:
  "k \<noteq> [] \<Longrightarrow> CHR ''='' \<notin> set k \<Longrightarrow> CHR 0x00 \<notin> set k \<Longrightarrow> CHR 0x00 \<notin> set v \<Longrightarrow>
   Setenv k v w = (None, emit (Setenv_ev k v) (w\<lparr>environ := (environ w)(k \<mapsto> v)\<rparr>))"
  by (simp add: Setenv_def)

lemma Setenv_err: "Setenv k v w = (Some e, w') \<Longrightarrow> w' = w \<and> e = EINVAL"
  by (auto simp: Setenv_def split: if_splits)

lemma Setenv_None:
  "Setenv k v w = (None, w') \<Longrightarrow>
     trace w' = trace w @ [Setenv_ev k v] \<and> environ w' = (environ w)(k \<mapsto> v)
     \<and> fdtable w' = fdtable w \<and> user w' = user w"
  by (auto simp: Setenv_def emit_def split: if_splits)

lemma Setenv_FD: "Setenv ''GOAGAIN_FD'' (Sprint_nat n) w
   = (None, emit (Setenv_ev ''GOAGAIN_FD'' (Sprint_nat n)) (w\<lparr>environ := (environ w)(''GOAGAIN_FD'' \<mapsto> Sprint_nat n)\<rparr>))"
  by (rule Setenv_ok) (simp_all add: no_NUL_Sprint_nat)

lemma Setenv_PID_empty:
  "Setenv ''GOAGAIN_PID'' [] w
   = (None, emit (Setenv_ev ''GOAGAIN_PID'' []) (w\<lparr>environ := (environ w)(''GOAGAIN_PID'' \<mapsto> [])\<rparr>))"
  by (rule Setenv_ok) simp_all

lemma Setenv_int:
  "k = ''GOAGAIN_PID'' \<or> k = ''GOAGAIN_PPID'' \<or> k = ''GOAGAIN_SIGNAL'' \<Longrightarrow>
   Setenv k (Sprint_int i) w
   = (None, emit (Setenv_ev k (Sprint_int i)) (w\<lparr>environ := (environ w)(k \<mapsto> Sprint_int i)\<rparr>))"
  by (rule Setenv_ok) (auto simp: no_NUL_Sprint_int)

lemma setenv_keys_append: "setenv_keys (xs @ ys) = setenv_keys xs @ setenv_keys ys"
  by (induction xs rule: setenv_keys.induct) auto

lemma setEnvs_File_Inr:
  "setEnvs_File s l w = (Inr fd, w1) \<Longrightarrow>
     File s l = Inr fd
     \<and> w1 = emit (Setenv_ev ''GOAGAIN_NAME'' (fdName (Addr_of l)))
            (emit (Setenv_ev ''GOAGAIN_FD'' (Sprint_nat (unat fd)))
               (w\<lparr>fdtable := (fdtable w)(fd \<mapsto> SocketOf l),
                  environ := (environ w)(''GOAGAIN_FD'' \<mapsto> Sprint_nat (unat fd),
                                         ''GOAGAIN_NAME'' \<mapsto> fdName (Addr_of l))\<rparr>))"
  by (auto simp: setEnvs_File_def Setenv_FD Let_def Setenv_def emit_def split: sum.splits if_splits)

lemma setEnvs_Inr:
  "setEnvs s l w = (Inr fd, w1) \<Longrightarrow>
     (\<exists>a. l = TCPListener a \<or> l = UnixListener a) \<and> setEnvs_File s l w = (Inr fd, w1)"
  by (cases l) auto

lemma setEnvs_ok:
  "setEnvs s l w = (Inr fd, w1) \<Longrightarrow>
     trace w1 = trace w @ [Setenv_ev ''GOAGAIN_FD'' (Sprint_nat (unat fd)),
                           Setenv_ev ''GOAGAIN_NAME'' (fdName (Addr_of l))]
     \<and> environ w1 = (environ w)(''GOAGAIN_FD'' \<mapsto> Sprint_nat (unat fd),
                                ''GOAGAIN_NAME'' \<mapsto> fdName (Addr_of l))
     \<and> fdtable w1 = (fdtable w)(fd \<mapsto> SocketOf l) \<and> user w1 = user w"
  using setEnvs_File_Inr [of s l w fd w1] setEnvs_Inr [of s l w fd w1]
  by (auto simp: emit_def)

text \<open>What a failing \<open>setEnvs\<close> leaves: the state as it was, or the new descriptor
  and its number in \<open>GOAGAIN_FD\<close> (when the name cannot be written).\<close>

lemma setEnvs_err:
  "setEnvs s l w = (Inl e, w1) \<Longrightarrow>
     w1 = w
     \<or> (\<exists>fd. File s l = Inr fd \<and> e = EINVAL
           \<and> trace w1 = trace w @ [Setenv_ev ''GOAGAIN_FD'' (Sprint_nat (unat fd))]
           \<and> environ w1 = (environ w)(''GOAGAIN_FD'' \<mapsto> Sprint_nat (unat fd)))"
  by (cases l)
     (auto simp: setEnvs_File_def Setenv_FD Let_def emit_def
           split: sum.splits prod.splits option.splits dest!: Setenv_err)

lemma setEnvs_success:
  assumes "\<exists>a. l = TCPListener a \<or> l = UnixListener a" and "File s l = Inr fd"
    and "CHR 0x00 \<notin> set (fdName (Addr_of l))"
  shows "setEnvs s l w =
     (Inr fd, emit (Setenv_ev ''GOAGAIN_NAME'' (fdName (Addr_of l)))
            (emit (Setenv_ev ''GOAGAIN_FD'' (Sprint_nat (unat fd)))
               (w\<lparr>fdtable := (fdtable w)(fd \<mapsto> SocketOf l),
                  environ := (environ w)(''GOAGAIN_FD'' \<mapsto> Sprint_nat (unat fd),
                                         ''GOAGAIN_NAME'' \<mapsto> fdName (Addr_of l))\<rparr>)))"
  using assms by (auto simp: setEnvs_File_def Let_def Setenv_def emit_def no_NUL_Sprint_nat)

lemma setEnvs_early:
  "(\<exists>t a. l = OtherListener t a) \<or> File s l = Inl e \<Longrightarrow> \<exists>e'. setEnvs s l w = (Inl e', w)"
  by (cases l) (auto simp: setEnvs_File_def)

lemma setEnvs_env:
  "setEnvs s l w = (r, w1) \<Longrightarrow>
     environ w1 ''GOAGAIN_SIGNAL'' = environ w ''GOAGAIN_SIGNAL''
     \<and> (\<exists>evs. trace w1 = trace w @ evs \<and> ''GOAGAIN_SIGNAL'' \<notin> set (setenv_keys evs))"
  by (cases r) (auto dest!: setEnvs_ok setEnvs_err)

subsection \<open>\<open>ForkExec\<close> and \<open>forkExec\<close>, step by step\<close>

lemma ForkExec_spawn_ok:
  "ForkExec_spawn g s argv0 wd fd w = (Return None, w') \<Longrightarrow>
     \<exists>files p. fileTable fd = Return files \<and> StartProcess s = Inr p
       \<and> trace w' = trace w @ StartProcess_ev argv0 wd files
             # (if Logger g then [Log_ev [LStr ''spawned child'', LInt p]] else [])
             @ [Setenv_ev ''GOAGAIN_PID'' (Sprint_int p)]
       \<and> environ w' = (environ w)(''GOAGAIN_PID'' \<mapsto> Sprint_int p)"
  by (auto simp: ForkExec_spawn_def Let_def emit_def logln_def
           split: outcome.splits sum.splits prod.splits option.splits if_splits
           dest!: Setenv_None)

lemma ForkExec_ok:
  assumes "ForkExec g s l w = (Return None, w')"
  shows "\<exists>argv0 wd fd files p evs.
       lookPath s = Return (Inr argv0) \<and> Getwd s = Inr wd \<and> File s l = Inr fd
       \<and> fileTable fd = Return files \<and> StartProcess s = Inr p
       \<and> trace w' = trace w @ evs
       \<and> setenv_keys evs = [''GOAGAIN_FD'', ''GOAGAIN_NAME'', ''GOAGAIN_PID'', ''GOAGAIN_PPID'',
                             ''GOAGAIN_SIGNAL'', ''GOAGAIN_PID'']
       \<and> count_list evs (StartProcess_ev argv0 wd files) = 1
       \<and> environ w' = (environ w)
           (''GOAGAIN_FD'' \<mapsto> Sprint_nat (unat fd),
            ''GOAGAIN_NAME'' \<mapsto> fdName (Addr_of l),
            ''GOAGAIN_PPID'' \<mapsto> Sprint_int (Getpid s),
            ''GOAGAIN_SIGNAL'' \<mapsto> Sprint_int (if Double = Strategy g then SIGUSR2 else SIGQUIT),
            ''GOAGAIN_PID'' \<mapsto> Sprint_int p)
       \<and> (\<forall>x. count_list evs (Hook_ev x) = 0)"
proof -
  from assms obtain argv0 wd fd w1 w2 w3 w4 where
    lp: "lookPath s = Return (Inr argv0)" and wd: "Getwd s = Inr wd"
    and se: "setEnvs s l w = (Inr fd, w1)"
    and s2: "Setenv ''GOAGAIN_PID'' [] w1 = (None, w2)"
    and s3: "Setenv ''GOAGAIN_PPID'' (Sprint_int (Getpid s)) w2 = (None, w3)"
    and s4: "Setenv ''GOAGAIN_SIGNAL'' (Sprint_int (if Double = Strategy g then SIGUSR2 else SIGQUIT)) w3 = (None, w4)"
    and sp: "ForkExec_spawn g s argv0 wd fd w4 = (Return None, w')"
    by (auto simp: ForkExec_def Let_def
             split: outcome.splits sum.splits prod.splits option.splits)
  from ForkExec_spawn_ok [OF sp] obtain files p where
    ft: "fileTable fd = Return files" and st: "StartProcess s = Inr p"
    and t5: "trace w' = trace w4 @ StartProcess_ev argv0 wd files
             # (if Logger g then [Log_ev [LStr ''spawned child'', LInt p]] else [])
             @ [Setenv_ev ''GOAGAIN_PID'' (Sprint_int p)]"
    and e5: "environ w' = (environ w4)(''GOAGAIN_PID'' \<mapsto> Sprint_int p)"
    by blast
  define evs where "evs = (if Logger g then [Log_ev [LStr ''spawned child'', LInt p]] else [])
             @ [Setenv_ev ''GOAGAIN_PID'' (Sprint_int p)]"
  have k5: "setenv_keys evs = [''GOAGAIN_PID'']" and nc: "count_list evs (StartProcess_ev argv0 wd files) = 0"
    by (simp_all add: evs_def)
  note o1 = setEnvs_ok [OF se] and o2 = Setenv_None [OF s2] and o3 = Setenv_None [OF s3]
    and o4 = Setenv_None [OF s4]
  have f: "File s l = Inr fd"
    using setEnvs_File_Inr [of s l w fd w1] setEnvs_Inr [OF se] by simp
  let ?evs = "[Setenv_ev ''GOAGAIN_FD'' (Sprint_nat (unat fd)),
               Setenv_ev ''GOAGAIN_NAME'' (fdName (Addr_of l)),
               Setenv_ev ''GOAGAIN_PID'' [],
               Setenv_ev ''GOAGAIN_PPID'' (Sprint_int (Getpid s)),
               Setenv_ev ''GOAGAIN_SIGNAL'' (Sprint_int (if Double = Strategy g then SIGUSR2 else SIGQUIT)),
               StartProcess_ev argv0 wd files] @ evs"
  have t: "trace w' = trace w @ ?evs"
    using o1 o2 o3 o4 t5 by (simp add: evs_def)
  have k: "setenv_keys ?evs = [''GOAGAIN_FD'', ''GOAGAIN_NAME'', ''GOAGAIN_PID'', ''GOAGAIN_PPID'',
                             ''GOAGAIN_SIGNAL'', ''GOAGAIN_PID'']"
    using k5 by simp
  have c: "count_list ?evs (StartProcess_ev argv0 wd files) = 1"
    using nc by simp
  have e: "environ w' = (environ w)
           (''GOAGAIN_FD'' \<mapsto> Sprint_nat (unat fd),
            ''GOAGAIN_NAME'' \<mapsto> fdName (Addr_of l),
            ''GOAGAIN_PPID'' \<mapsto> Sprint_int (Getpid s),
            ''GOAGAIN_SIGNAL'' \<mapsto> Sprint_int (if Double = Strategy g then SIGUSR2 else SIGQUIT),
            ''GOAGAIN_PID'' \<mapsto> Sprint_int p)"
    using o1 o2 o3 o4 e5 by (auto simp: fun_eq_iff)
  have h: "\<forall>x. count_list ?evs (Hook_ev x) = 0"
    by (simp add: evs_def)
  from lp wd f ft st t k c e h show ?thesis by blast
qed

lemma forkExec_spawn_ok:
  "forkExec_spawn lg s argv0 wd fd w = (Return (cp, None), w') \<Longrightarrow>
     \<exists>files p. cp = Some p \<and> fileTable fd = Return files \<and> StartProcess s = Inr p
       \<and> trace w' = trace w @ StartProcess_ev argv0 wd files
             # (if lg then [Log_ev [LStr ''spawned child'', LInt p]] else [])
             @ [Setenv_ev ''GOAGAIN_PID'' (Sprint_int p)]
       \<and> environ w' = (environ w)(''GOAGAIN_PID'' \<mapsto> Sprint_int p)"
  by (auto simp: forkExec_spawn_def Let_def emit_def logln_def
           split: outcome.splits sum.splits prod.splits option.splits if_splits
           dest!: Setenv_None)

lemma forkExec_spawn_env:
  "forkExec_spawn lg s argv0 wd fd w = (r, w') \<Longrightarrow>
     environ w' ''GOAGAIN_SIGNAL'' = environ w ''GOAGAIN_SIGNAL''
     \<and> (\<exists>evs. trace w' = trace w @ evs \<and> ''GOAGAIN_SIGNAL'' \<notin> set (setenv_keys evs))"
  by (auto simp: forkExec_spawn_def Let_def emit_def logln_def Setenv_int
           split: outcome.splits sum.splits prod.splits option.splits if_splits)

lemma forkExec_signal_untouched:
  assumes "forkExec lg s l q w = (r, w')"
  shows "environ w' ''GOAGAIN_SIGNAL'' = environ w ''GOAGAIN_SIGNAL''
     \<and> ''GOAGAIN_SIGNAL'' \<notin> set (setenv_keys (new_trace w w'))"
proof -
  have "environ w' ''GOAGAIN_SIGNAL'' = environ w ''GOAGAIN_SIGNAL''
     \<and> (\<exists>evs. trace w' = trace w @ evs \<and> ''GOAGAIN_SIGNAL'' \<notin> set (setenv_keys evs))"
    using assms
    by (auto simp: forkExec_def Let_def Setenv_PID_empty Setenv_int emit_def setenv_keys_append
             split: outcome.splits sum.splits prod.splits option.splits
             dest!: setEnvs_env forkExec_spawn_env)
  then show ?thesis by (auto simp: new_trace_def)
qed

lemma ForkExec_early:
  assumes "lookPath s = Return (Inl e) \<or> Getwd s = Inl e \<or> (\<exists>t a. l = OtherListener t a)
           \<or> File s l = Inl e"
  shows "snd (ForkExec g s l w) = w"
proof -
  have "lookPath s = Return (Inl e) \<or> Getwd s = Inl e \<or> (\<exists>e'. setEnvs s l w = (Inl e', w))"
    using assms setEnvs_early [of l s e w] by blast
  then show ?thesis
    by (auto simp: ForkExec_def split: outcome.splits sum.splits)
qed

lemma forkExec_early:
  assumes "lookPath s = Return (Inl e) \<or> Getwd s = Inl e \<or> (\<exists>t a. l = OtherListener t a)
           \<or> File s l = Inl e"
  shows "snd (forkExec lg s l q w) = w"
proof -
  have "lookPath s = Return (Inl e) \<or> Getwd s = Inl e \<or> (\<exists>e'. setEnvs s l w = (Inl e', w))"
    using assms setEnvs_early [of l s e w] by blast
  then show ?thesis
    by (auto simp: forkExec_def split: outcome.splits sum.splits)
qed

text \<open>A successful call, event by event, and the environment it leaves.\<close>

lemma ForkExec_written:
  assumes "ForkExec g s l w = (Return None, w')"
  shows "\<exists>argv0 wd fd files p.
       lookPath s = Return (Inr argv0) \<and> Getwd s = Inr wd \<and> File s l = Inr fd
       \<and> fileTable fd = Return files \<and> StartProcess s = Inr p
       \<and> trace w' = trace w @
            [Setenv_ev ''GOAGAIN_FD'' (Sprint_nat (unat fd)),
             Setenv_ev ''GOAGAIN_NAME'' (fdName (Addr_of l)),
             Setenv_ev ''GOAGAIN_PID'' [],
             Setenv_ev ''GOAGAIN_PPID'' (Sprint_int (Getpid s)),
             Setenv_ev ''GOAGAIN_SIGNAL'' (Sprint_int (if Double = Strategy g then SIGUSR2 else SIGQUIT)),
             StartProcess_ev argv0 wd files]
            @ (if Logger g then [Log_ev [LStr ''spawned child'', LInt p]] else [])
            @ [Setenv_ev ''GOAGAIN_PID'' (Sprint_int p)]
       \<and> environ w' = (environ w)
           (''GOAGAIN_FD'' \<mapsto> Sprint_nat (unat fd),
            ''GOAGAIN_NAME'' \<mapsto> fdName (Addr_of l),
            ''GOAGAIN_PPID'' \<mapsto> Sprint_int (Getpid s),
            ''GOAGAIN_SIGNAL'' \<mapsto> Sprint_int (if Double = Strategy g then SIGUSR2 else SIGQUIT),
            ''GOAGAIN_PID'' \<mapsto> Sprint_int p)"
proof -
  from assms obtain argv0 wd fd w1 w2 w3 w4 where
    lp: "lookPath s = Return (Inr argv0)" and wd: "Getwd s = Inr wd"
    and se: "setEnvs s l w = (Inr fd, w1)"
    and s2: "Setenv ''GOAGAIN_PID'' [] w1 = (None, w2)"
    and s3: "Setenv ''GOAGAIN_PPID'' (Sprint_int (Getpid s)) w2 = (None, w3)"
    and s4: "Setenv ''GOAGAIN_SIGNAL'' (Sprint_int (if Double = Strategy g then SIGUSR2 else SIGQUIT)) w3 = (None, w4)"
    and sp: "ForkExec_spawn g s argv0 wd fd w4 = (Return None, w')"
    by (auto simp: ForkExec_def Let_def
             split: outcome.splits sum.splits prod.splits option.splits)
  from ForkExec_spawn_ok [OF sp] obtain files p where
    ft: "fileTable fd = Return files" and st: "StartProcess s = Inr p"
    and t5: "trace w' = trace w4 @ StartProcess_ev argv0 wd files
             # (if Logger g then [Log_ev [LStr ''spawned child'', LInt p]] else [])
             @ [Setenv_ev ''GOAGAIN_PID'' (Sprint_int p)]"
    and e5: "environ w' = (environ w4)(''GOAGAIN_PID'' \<mapsto> Sprint_int p)"
    by blast
  note o1 = setEnvs_ok [OF se] and o2 = Setenv_None [OF s2] and o3 = Setenv_None [OF s3]
    and o4 = Setenv_None [OF s4]
  have f: "File s l = Inr fd"
    using setEnvs_File_Inr [of s l w fd w1] setEnvs_Inr [OF se] by simp
  have t: "trace w' = trace w @
            [Setenv_ev ''GOAGAIN_FD'' (Sprint_nat (unat fd)),
             Setenv_ev ''GOAGAIN_NAME'' (fdName (Addr_of l)),
             Setenv_ev ''GOAGAIN_PID'' [],
             Setenv_ev ''GOAGAIN_PPID'' (Sprint_int (Getpid s)),
             Setenv_ev ''GOAGAIN_SIGNAL'' (Sprint_int (if Double = Strategy g then SIGUSR2 else SIGQUIT)),
             StartProcess_ev argv0 wd files]
            @ (if Logger g then [Log_ev [LStr ''spawned child'', LInt p]] else [])
            @ [Setenv_ev ''GOAGAIN_PID'' (Sprint_int p)]"
    using o1 o2 o3 o4 t5 by simp
  have e: "environ w' = (environ w)
           (''GOAGAIN_FD'' \<mapsto> Sprint_nat (unat fd),
            ''GOAGAIN_NAME'' \<mapsto> fdName (Addr_of l),
            ''GOAGAIN_PPID'' \<mapsto> Sprint_int (Getpid s),
            ''GOAGAIN_SIGNAL'' \<mapsto> Sprint_int (if Double = Strategy g then SIGUSR2 else SIGQUIT),
            ''GOAGAIN_PID'' \<mapsto> Sprint_int p)"
    using o1 o2 o3 o4 e5 by (auto simp: fun_eq_iff)
  from lp wd f ft st t e show ?thesis by blast
qed

lemma forkExec_written:
  assumes "forkExec lg s l q w = (Return (cp, None), w')"
  shows "\<exists>argv0 wd fd files p.
       cp = Some p
       \<and> lookPath s = Return (Inr argv0) \<and> Getwd s = Inr wd \<and> File s l = Inr fd
       \<and> fileTable fd = Return files \<and> StartProcess s = Inr p
       \<and> trace w' = trace w @
            [Setenv_ev ''GOAGAIN_FD'' (Sprint_nat (unat fd)),
             Setenv_ev ''GOAGAIN_NAME'' (fdName (Addr_of l)),
             Setenv_ev ''GOAGAIN_PID'' [],
             Setenv_ev ''GOAGAIN_PPID'' (Sprint_int (Getpid s)),
             StartProcess_ev argv0 wd files]
            @ (if lg then [Log_ev [LStr ''spawned child'', LInt p]] else [])
            @ [Setenv_ev ''GOAGAIN_PID'' (Sprint_int p)]
       \<and> environ w' = (environ w)
           (''GOAGAIN_FD'' \<mapsto> Sprint_nat (unat fd),
            ''GOAGAIN_NAME'' \<mapsto> fdName (Addr_of l),
            ''GOAGAIN_PPID'' \<mapsto> Sprint_int (Getpid s),
            ''GOAGAIN_PID'' \<mapsto> Sprint_int p)"
proof -
  from assms obtain argv0 wd fd w1 w2 w3 where
    lp: "lookPath s = Return (Inr argv0)" and wd: "Getwd s = Inr wd"
    and se: "setEnvs s l w = (Inr fd, w1)"
    and s2: "Setenv ''GOAGAIN_PID'' [] w1 = (None, w2)"
    and s3: "Setenv ''GOAGAIN_PPID'' (Sprint_int (Getpid s)) w2 = (None, w3)"
    and sp: "forkExec_spawn lg s argv0 wd fd w3 = (Return (cp, None), w')"
    by (auto simp: forkExec_def Let_def
             split: outcome.splits sum.splits prod.splits option.splits)
  from forkExec_spawn_ok [OF sp] obtain files p where
    cp: "cp = Some p" and ft: "fileTable fd = Return files" and st: "StartProcess s = Inr p"
    and t5: "trace w' = trace w3 @ StartProcess_ev argv0 wd files
             # (if lg then [Log_ev [LStr ''spawned child'', LInt p]] else [])
             @ [Setenv_ev ''GOAGAIN_PID'' (Sprint_int p)]"
    and e5: "environ w' = (environ w3)(''GOAGAIN_PID'' \<mapsto> Sprint_int p)"
    by blast
  note o1 = setEnvs_ok [OF se] and o2 = Setenv_None [OF s2] and o3 = Setenv_None [OF s3]
  have f: "File s l = Inr fd"
    using setEnvs_File_Inr [of s l w fd w1] setEnvs_Inr [OF se] by simp
  have t: "trace w' = trace w @
            [Setenv_ev ''GOAGAIN_FD'' (Sprint_nat (unat fd)),
             Setenv_ev ''GOAGAIN_NAME'' (fdName (Addr_of l)),
             Setenv_ev ''GOAGAIN_PID'' [],
             Setenv_ev ''GOAGAIN_PPID'' (Sprint_int (Getpid s)),
             StartProcess_ev argv0 wd files]
            @ (if lg then [Log_ev [LStr ''spawned child'', LInt p]] else [])
            @ [Setenv_ev ''GOAGAIN_PID'' (Sprint_int p)]"
    using o1 o2 o3 t5 by simp
  have e: "environ w' = (environ w)
           (''GOAGAIN_FD'' \<mapsto> Sprint_nat (unat fd),
            ''GOAGAIN_NAME'' \<mapsto> fdName (Addr_of l),
            ''GOAGAIN_PPID'' \<mapsto> Sprint_int (Getpid s),
            ''GOAGAIN_PID'' \<mapsto> Sprint_int p)"
    using o1 o2 o3 e5 by (auto simp: fun_eq_iff)
  from cp lp wd f ft st t e show ?thesis by blast
qed

text \<open>The call in which \<open>os.StartProcess\<close> fails.\<close>

lemma ForkExec_StartProcess_fails_state:
  assumes "lookPath s = Return (Inr argv0)" "Getwd s = Inr wd" "setEnvs s l w = (Inr fd, w1)"
    "fileTable fd = Return files" "StartProcess s = Inl e"
  shows "fst (ForkExec g s l w) = Return (Some e)
     \<and> new_trace w (snd (ForkExec g s l w))
         = [Setenv_ev ''GOAGAIN_FD'' (Sprint_nat (unat fd)),
            Setenv_ev ''GOAGAIN_NAME'' (fdName (Addr_of l)),
            Setenv_ev ''GOAGAIN_PID'' [],
            Setenv_ev ''GOAGAIN_PPID'' (Sprint_int (Getpid s)),
            Setenv_ev ''GOAGAIN_SIGNAL'' (Sprint_int (if Double = Strategy g then SIGUSR2 else SIGQUIT)),
            StartProcess_ev argv0 wd files]
     \<and> environ (snd (ForkExec g s l w)) = (environ w)
           (''GOAGAIN_FD'' \<mapsto> Sprint_nat (unat fd),
            ''GOAGAIN_NAME'' \<mapsto> fdName (Addr_of l),
            ''GOAGAIN_PID'' \<mapsto> [],
            ''GOAGAIN_PPID'' \<mapsto> Sprint_int (Getpid s),
            ''GOAGAIN_SIGNAL'' \<mapsto> Sprint_int (if Double = Strategy g then SIGUSR2 else SIGQUIT))"
  using assms setEnvs_ok [OF assms(3)]
  by (simp add: ForkExec_def Setenv_PID_empty Setenv_int ForkExec_spawn_def emit_def new_trace_def)

lemma forkExec_StartProcess_fails_state:
  assumes "lookPath s = Return (Inr argv0)" "Getwd s = Inr wd" "setEnvs s l w = (Inr fd, w1)"
    "fileTable fd = Return files" "StartProcess s = Inl e"
  shows "fst (forkExec lg s l q w) = Return (None, Some e)
     \<and> new_trace w (snd (forkExec lg s l q w))
         = [Setenv_ev ''GOAGAIN_FD'' (Sprint_nat (unat fd)),
            Setenv_ev ''GOAGAIN_NAME'' (fdName (Addr_of l)),
            Setenv_ev ''GOAGAIN_PID'' [],
            Setenv_ev ''GOAGAIN_PPID'' (Sprint_int (Getpid s)),
            StartProcess_ev argv0 wd files]
     \<and> environ (snd (forkExec lg s l q w)) = (environ w)
           (''GOAGAIN_FD'' \<mapsto> Sprint_nat (unat fd),
            ''GOAGAIN_NAME'' \<mapsto> fdName (Addr_of l),
            ''GOAGAIN_PID'' \<mapsto> [],
            ''GOAGAIN_PPID'' \<mapsto> Sprint_int (Getpid s))"
  using assms setEnvs_ok [OF assms(3)]
  by (simp add: forkExec_def Setenv_PID_empty Setenv_int forkExec_spawn_def emit_def new_trace_def)

subsection \<open>The example runs, evaluated\<close>

lemma fileTable_7: "fileTable 7 = Return [Some 0, Some 1, Some 2, None, None, None, None, Some 7]"
  by code_simp

lemma tcp0_variant: "\<exists>a. tcp0 = TCPListener a \<or> tcp0 = UnixListener a"
  by (simp add: tcp0_def)

lemma tcp0_name: "fdName (Addr_of tcp0) = ''tcp:127.0.0.1:48879->''"
  by (simp add: tcp0_def fdName_def)

lemma lookPath_sys0: "lookPath sys0 = Return (Inr ''/srv/server'')"
  by (simp add: lookPath_def sys0_def)

lemma setEnvs_run0:
  "File s tcp0 = Inr 7 \<Longrightarrow> setEnvs s tcp0 (env_world []) =
     (Inr 7, \<lparr>environ = [''GOAGAIN_FD'' \<mapsto> ''7'', ''GOAGAIN_NAME'' \<mapsto> ''tcp:127.0.0.1:48879->''],
              fdtable = [7 \<mapsto> SocketOf tcp0], user = (),
              trace = [Setenv_ev ''GOAGAIN_FD'' ''7'', Setenv_ev ''GOAGAIN_NAME'' ''tcp:127.0.0.1:48879->'']\<rparr>)"
  by (simp add: setEnvs_success [OF tcp0_variant] tcp0_name env_world_def emit_def
      Sprint_nat_small decimalDigits_def)

lemma Sprint_int_values:
  "Sprint_int 3 = ''3''" "Sprint_int 12 = ''12''" "Sprint_int 100 = ''100''" "Sprint_int 101 = ''101''"
  by (simp_all add: Sprint_int_def Sprint_nat.simps decimalDigits_def)

lemma ForkExec_run0:
  "ForkExec g sys0 tcp0 (env_world []) =
     (Return None,
      \<lparr>environ = [''GOAGAIN_FD'' \<mapsto> ''7'', ''GOAGAIN_NAME'' \<mapsto> ''tcp:127.0.0.1:48879->'',
                  ''GOAGAIN_PID'' \<mapsto> [], ''GOAGAIN_PPID'' \<mapsto> ''100'',
                  ''GOAGAIN_SIGNAL'' \<mapsto> (if Double = Strategy g then ''12'' else ''3''),
                  ''GOAGAIN_PID'' \<mapsto> ''101''],
       fdtable = [7 \<mapsto> SocketOf tcp0], user = (),
       trace = [Setenv_ev ''GOAGAIN_FD'' ''7'', Setenv_ev ''GOAGAIN_NAME'' ''tcp:127.0.0.1:48879->'',
                Setenv_ev ''GOAGAIN_PID'' [], Setenv_ev ''GOAGAIN_PPID'' ''100'',
                Setenv_ev ''GOAGAIN_SIGNAL'' (if Double = Strategy g then ''12'' else ''3''),
                StartProcess_ev ''/srv/server'' ''/srv''
                  [Some 0, Some 1, Some 2, None, None, None, None, Some 7]]
               @ (if Logger g then [Log_ev [LStr ''spawned child'', LInt 101]] else [])
               @ [Setenv_ev ''GOAGAIN_PID'' ''101'']\<rparr>)"
proof -
  have f: "File sys0 tcp0 = Inr 7" by (simp add: sys0_def)
  have o: "Getwd sys0 = Inr ''/srv''" "StartProcess sys0 = Inr 101" "Getpid sys0 = 100"
    by (simp_all add: sys0_def)
  show ?thesis
    by (simp add: ForkExec_def lookPath_sys0 o setEnvs_run0 [OF f] Setenv_def
        ForkExec_spawn_def fileTable_7 emit_def logln_def signal_defs Sprint_int_values)
qed

lemma forkExec_run0:
  "forkExec lg sys0 tcp0 q (env_world []) =
     (Return (Some 101, None),
      \<lparr>environ = [''GOAGAIN_FD'' \<mapsto> ''7'', ''GOAGAIN_NAME'' \<mapsto> ''tcp:127.0.0.1:48879->'',
                  ''GOAGAIN_PID'' \<mapsto> [], ''GOAGAIN_PPID'' \<mapsto> ''100'',
                  ''GOAGAIN_PID'' \<mapsto> ''101''],
       fdtable = [7 \<mapsto> SocketOf tcp0], user = (),
       trace = [Setenv_ev ''GOAGAIN_FD'' ''7'', Setenv_ev ''GOAGAIN_NAME'' ''tcp:127.0.0.1:48879->'',
                Setenv_ev ''GOAGAIN_PID'' [], Setenv_ev ''GOAGAIN_PPID'' ''100'',
                StartProcess_ev ''/srv/server'' ''/srv''
                  [Some 0, Some 1, Some 2, None, None, None, None, Some 7]]
               @ (if lg then [Log_ev [LStr ''spawned child'', LInt 101]] else [])
               @ [Setenv_ev ''GOAGAIN_PID'' ''101'']\<rparr>)"
proof -
  have f: "File sys0 tcp0 = Inr 7" by (simp add: sys0_def)
  have o: "Getwd sys0 = Inr ''/srv''" "StartProcess sys0 = Inr 101" "Getpid sys0 = 100"
    by (simp_all add: sys0_def)
  show ?thesis
    by (simp add: forkExec_def lookPath_sys0 o setEnvs_run0 [OF f] Setenv_def
        forkExec_spawn_def fileTable_7 emit_def logln_def Sprint_int_values)
qed

lemma ForkExec_run_nostart:
  "ForkExec globals0 sys_nostart tcp0 (env_world []) =
     (Return (Some (OSError ''fork/exec /srv/server: resource temporarily unavailable'')),
      \<lparr>environ = [''GOAGAIN_FD'' \<mapsto> ''7'', ''GOAGAIN_NAME'' \<mapsto> ''tcp:127.0.0.1:48879->'',
                  ''GOAGAIN_PID'' \<mapsto> [], ''GOAGAIN_PPID'' \<mapsto> ''100'',
                  ''GOAGAIN_SIGNAL'' \<mapsto> ''3''],
       fdtable = [7 \<mapsto> SocketOf tcp0], user = (),
       trace = [Setenv_ev ''GOAGAIN_FD'' ''7'', Setenv_ev ''GOAGAIN_NAME'' ''tcp:127.0.0.1:48879->'',
                Setenv_ev ''GOAGAIN_PID'' [], Setenv_ev ''GOAGAIN_PPID'' ''100'',
                Setenv_ev ''GOAGAIN_SIGNAL'' ''3'',
                StartProcess_ev ''/srv/server'' ''/srv''
                  [Some 0, Some 1, Some 2, None, None, None, None, Some 7]]\<rparr>)"
proof -
  have f: "File sys_nostart tcp0 = Inr 7" by (simp add: sys0_def sys_nostart_def)
  have o: "Getwd sys_nostart = Inr ''/srv''" "Getpid sys_nostart = 100"
    "StartProcess sys_nostart = Inl (OSError ''fork/exec /srv/server: resource temporarily unavailable'')"
    "lookPath sys_nostart = Return (Inr ''/srv/server'')"
    by (simp_all add: sys0_def sys_nostart_def lookPath_def)
  show ?thesis
    by (simp add: ForkExec_def o setEnvs_run0 [OF f] Setenv_def globals0_def
        ForkExec_spawn_def fileTable_7 emit_def logln_def signal_defs Sprint_int_values)
qed

lemma scan_fd_7: "Sscan_uintptr ''7'' = Inr 7"
  by (simp add: scan_defs)

lemma Listener_inherited:
  "fst (Listener (inherited_world tcp0)) = (Some tcp0, None)"
  "fst (Listener (inherited_world tls0)) = (Some tls0, Some (NotListener ''*tls.listener''))"
  "FileListener (inherited_world tls0) (NewFile 7)
     = Inr (OtherListener ''*tls.listener'' \<lparr>Network = ''tcp'', AddrString = ''[::]:443''\<rparr>)"
  by (simp_all add: Listener_def inherited_world_def Getenv_def scan_fd_7 NewFile_def
      FileListener_def tcp0_def tls0_def Let_def)

subsection \<open>Listener handoff\<close>

text \<open>
  Claim C8. \<open>setEnvs\<close> succeeds only on a TCP or a unix listener and returns the
  unsupported-type error, changing nothing, on a listener of any other type;
  \<open>Listener\<close> returns without an error only with a TCP or a unix listener, and returns
  the type-mismatch error whenever the listener reconstructed from the descriptor is of
  another type.
\<close>

theorem accepted_variants:
  "setEnvs s (OtherListener t a) w = (Inl (SetEnvsNotListener t), w)
   \<and> (setEnvs s l w = (Inr fd, w1) \<longrightarrow> (\<exists>a. l = TCPListener a \<or> l = UnixListener a))
   \<and> (snd (fst (Listener w)) = None \<longrightarrow>
        (\<exists>a. fst (fst (Listener w)) = Some (TCPListener a)
            \<or> fst (fst (Listener w)) = Some (UnixListener a)))
   \<and> (Sscan_uintptr (Getenv ''GOAGAIN_FD'' w) = Inr fd'
        \<and> FileListener w (NewFile fd') = Inr (OtherListener t' a') \<longrightarrow>
        snd (fst (Listener w)) = Some (NotListener t'))"
proof (intro conjI impI)
  show "setEnvs s (OtherListener t a) w = (Inl (SetEnvsNotListener t), w)" by simp
next
  assume "setEnvs s l w = (Inr fd, w1)"
  then show "\<exists>a. l = TCPListener a \<or> l = UnixListener a" by (simp add: setEnvs_Inr)
next
  assume "snd (fst (Listener w)) = None"
  then show "\<exists>a. fst (fst (Listener w)) = Some (TCPListener a)
            \<or> fst (fst (Listener w)) = Some (UnixListener a)"
    by (auto simp: Listener_def Let_def split: sum.splits listener.splits)
next
  assume "Sscan_uintptr (Getenv ''GOAGAIN_FD'' w) = Inr fd'
        \<and> FileListener w (NewFile fd') = Inr (OtherListener t' a')"
  then show "snd (fst (Listener w)) = Some (NotListener t')"
    by (simp add: Listener_def Let_def)
qed

text \<open>The theorem on the TCP listener of the example (accepted by both operations) and on
  a listener of another type (refused by both).\<close>

theorem accepted_variants_witness:
  "fst (setEnvs sys0 tcp0 (env_world [])) = Inr 7
   \<and> (\<exists>a. tcp0 = TCPListener a \<or> tcp0 = UnixListener a)
   \<and> setEnvs sys0 tls0 (env_world []) = (Inl (SetEnvsNotListener ''*tls.listener''), env_world [])
   \<and> snd (fst (Listener (inherited_world tcp0))) = None
   \<and> (\<exists>a. fst (fst (Listener (inherited_world tcp0))) = Some (TCPListener a)
          \<or> fst (fst (Listener (inherited_world tcp0))) = Some (UnixListener a))
   \<and> snd (fst (Listener (inherited_world tls0))) = Some (NotListener ''*tls.listener'')"
proof -
  have f: "File sys0 tcp0 = Inr 7" by (simp add: sys0_def)
  have a: "setEnvs sys0 tcp0 (env_world []) = (Inr 7, snd (setEnvs sys0 tcp0 (env_world [])))"
    by (simp add: setEnvs_run0 [OF f])
  have c1: "\<exists>a. tcp0 = TCPListener a \<or> tcp0 = UnixListener a"
    using accepted_variants [where s = sys0 and l = tcp0 and w = "env_world []" and fd = 7
        and ?w1.0 = "snd (setEnvs sys0 tcp0 (env_world []))"] a
    by simp
  have c2: "setEnvs sys0 tls0 (env_world [])
            = (Inl (SetEnvsNotListener ''*tls.listener''), env_world [])"
    using accepted_variants [where s = sys0 and w = "env_world []" and t = "''*tls.listener''"
        and a = "\<lparr>Network = ''tcp'', AddrString = ''[::]:443''\<rparr>"]
    by (simp add: tls0_def)
  have n: "snd (fst (Listener (inherited_world tcp0))) = None"
    by (simp add: Listener_inherited)
  have c3: "\<exists>a. fst (fst (Listener (inherited_world tcp0))) = Some (TCPListener a)
          \<or> fst (fst (Listener (inherited_world tcp0))) = Some (UnixListener a)"
    using accepted_variants [where w = "inherited_world tcp0"] n
    by simp
  have g: "Sscan_uintptr (Getenv ''GOAGAIN_FD'' (inherited_world tls0)) = Inr 7"
    by (simp add: inherited_world_def Getenv_def scan_fd_7)
  have c4: "snd (fst (Listener (inherited_world tls0))) = Some (NotListener ''*tls.listener'')"
    using accepted_variants [where w = "inherited_world tls0" and fd' = 7
        and t' = "''*tls.listener''"
        and a' = "\<lparr>Network = ''tcp'', AddrString = ''[::]:443''\<rparr>"] g Listener_inherited(3)
    by simp
  have a': "fst (setEnvs sys0 tcp0 (env_world [])) = Inr 7"
    by (simp add: setEnvs_run0 [OF f])
  from a' c1 c2 n c3 c4 show ?thesis by simp
qed

text \<open>
  Claim C1. When \<open>setEnvs\<close> has succeeded on a listener with the descriptor \<open>fd\<close>, then
  in every process that has the \<open>GOAGAIN_FD\<close> of the resulting environment and in which
  the descriptor \<open>fd\<close> refers to what it refers to in the encoding process (the
  descriptor is inherited; as an \<open>int\<close> it is not negative), \<open>Listener\<close> returns without
  an error a listener with the address string of the original; it is a listener on the
  same socket.
\<close>

theorem Listener_setEnvs_roundtrip:
  assumes "setEnvs s l w = (Inr fd, w1)"
    and "environ w' ''GOAGAIN_FD'' = environ w1 ''GOAGAIN_FD''"
    and "fdtable w' fd = fdtable w1 fd"
    and "0 \<le> sint fd"
  shows "\<exists>l'. fst (Listener w') = (Some l', None)
              \<and> AddrString (Addr_of l') = AddrString (Addr_of l) \<and> l' = l"
proof -
  from assms(1) have v: "\<exists>a. l = TCPListener a \<or> l = UnixListener a"
    and f: "setEnvs_File s l w = (Inr fd, w1)"
    by (simp_all add: setEnvs_Inr)
  from setEnvs_File_Inr [OF f]
  have e: "environ w1 ''GOAGAIN_FD'' = Some (Sprint_nat (unat fd))"
    and t: "fdtable w1 fd = Some (SocketOf l)"
    by (simp_all add: emit_def)
  from e assms(2) have "Getenv ''GOAGAIN_FD'' w' = Sprint_nat (unat fd)"
    by (simp add: Getenv_def)
  then have sc: "Sscan_uintptr (Getenv ''GOAGAIN_FD'' w') = Inr fd"
    by (simp add: Sscan_uintptr_Sprint)
  from assms(4) have nf: "NewFile fd = Some fd" by (simp add: NewFile_def)
  from t assms(3) have fl: "FileListener w' (Some fd) = Inr l"
    by (simp add: FileListener_def)
  from v sc nf fl have "fst (Listener w') = (Some l, None)"
    by (auto simp: Listener_def Let_def)
  then show ?thesis by simp
qed

text \<open>The theorem on the process that \<open>os.StartProcess\<close> starts with the file table of
  \<open>ForkExec\<close> for the descriptor 7.\<close>

theorem Listener_setEnvs_roundtrip_witness:
  "setEnvs sys0 tcp0 (env_world []) = (Inr 7, snd (setEnvs sys0 tcp0 (env_world [])))
   \<and> fileTable 7 = Return files7
   \<and> fst (Listener (spawned (snd (setEnvs sys0 tcp0 (env_world []))) files7)) = (Some tcp0, None)"
proof -
  have f: "File sys0 tcp0 = Inr 7" by (simp add: sys0_def)
  let ?w1 = "snd (setEnvs sys0 tcp0 (env_world []))"
  have a: "setEnvs sys0 tcp0 (env_world []) = (Inr 7, ?w1)"
    by (simp add: setEnvs_run0 [OF f])
  have b: "environ (spawned ?w1 files7) ''GOAGAIN_FD'' = environ ?w1 ''GOAGAIN_FD''"
    by (simp add: spawned_def)
  have c: "fdtable (spawned ?w1 files7) 7 = fdtable ?w1 7"
    by (simp add: spawned_def files7_def)
  have d: "0 \<le> sint (7 :: 64 word)" by simp
  from Listener_setEnvs_roundtrip [OF a b c d] a show ?thesis
    by (simp add: fileTable_7 files7_def)
qed

subsection \<open>\<open>ForkExec\<close>: the fields of the envelope\<close>

text \<open>
  Claim C3, as amended. Every successful \<open>ForkExec\<close> of the first generation writes the
  handshake-signal field \<open>GOAGAIN_SIGNAL\<close> once, as a function of \<open>Strategy\<close>: the
  number of \<open>SIGUSR2\<close> (12) for \<open>Double\<close>, which is not the graceful-exit signal, and
  the number of \<open>SIGQUIT\<close> (3), the graceful-exit signal itself, for \<open>Single\<close>. The
  second generation has no \<open>Strategy\<close>, and its \<open>forkExec\<close> never writes the field: it
  is after the call what it was before.
\<close>

theorem handshake_signal_by_Strategy:
  "(ForkExec g s l w = (Return None, w') \<longrightarrow>
      environ w' ''GOAGAIN_SIGNAL''
        = Some (Sprint_int (if Strategy g = Double then SIGUSR2 else SIGQUIT))
      \<and> count_list (setenv_keys (new_trace w w')) ''GOAGAIN_SIGNAL'' = 1)
   \<and> Sprint_int SIGUSR2 = ''12'' \<and> Sprint_int SIGQUIT = ''3'' \<and> SIGUSR2 \<noteq> SIGQUIT
   \<and> (forkExec lg s l q w = (r, w'') \<longrightarrow>
        environ w'' ''GOAGAIN_SIGNAL'' = environ w ''GOAGAIN_SIGNAL''
        \<and> ''GOAGAIN_SIGNAL'' \<notin> set (setenv_keys (new_trace w w'')))"
proof (intro conjI impI)
  assume a: "ForkExec g s l w = (Return None, w')"
  from ForkExec_ok [OF a] obtain argv0 wd fd files p evs where
    "lookPath s = Return (Inr argv0)" "Getwd s = Inr wd" "File s l = Inr fd"
    "fileTable fd = Return files" "StartProcess s = Inr p"
    and t: "trace w' = trace w @ evs"
    and k: "setenv_keys evs = [''GOAGAIN_FD'', ''GOAGAIN_NAME'', ''GOAGAIN_PID'', ''GOAGAIN_PPID'',
                             ''GOAGAIN_SIGNAL'', ''GOAGAIN_PID'']"
    and "count_list evs (StartProcess_ev argv0 wd files) = 1"
    and e: "environ w' = (environ w)
           (''GOAGAIN_FD'' \<mapsto> Sprint_nat (unat fd),
            ''GOAGAIN_NAME'' \<mapsto> fdName (Addr_of l),
            ''GOAGAIN_PPID'' \<mapsto> Sprint_int (Getpid s),
            ''GOAGAIN_SIGNAL'' \<mapsto> Sprint_int (if Double = Strategy g then SIGUSR2 else SIGQUIT),
            ''GOAGAIN_PID'' \<mapsto> Sprint_int p)"
    by (elim exE conjE) (rule that; assumption)
  from e show "environ w' ''GOAGAIN_SIGNAL''
        = Some (Sprint_int (if Strategy g = Double then SIGUSR2 else SIGQUIT))"
    by (cases "Strategy g") simp_all
  from t k show "count_list (setenv_keys (new_trace w w')) ''GOAGAIN_SIGNAL'' = 1"
    by (simp add: new_trace_def)
next
  show "Sprint_int SIGUSR2 = ''12''" by (simp add: signal_defs Sprint_int_values)
  show "Sprint_int SIGQUIT = ''3''" by (simp add: signal_defs Sprint_int_values)
  show "SIGUSR2 \<noteq> SIGQUIT" by (simp add: signal_defs)
next
  assume "forkExec lg s l q w = (r, w'')"
  from forkExec_signal_untouched [OF this]
  show "environ w'' ''GOAGAIN_SIGNAL'' = environ w ''GOAGAIN_SIGNAL''"
    and "''GOAGAIN_SIGNAL'' \<notin> set (setenv_keys (new_trace w w''))"
    by simp_all
qed

theorem handshake_signal_by_Strategy_witness:
  "environ (snd (ForkExec globalsD sys0 tcp0 (env_world []))) ''GOAGAIN_SIGNAL'' = Some ''12''
   \<and> environ (snd (ForkExec globals0 sys0 tcp0 (env_world []))) ''GOAGAIN_SIGNAL'' = Some ''3''
   \<and> environ (snd (forkExec False sys0 tcp0 SIGUSR2 (env_world []))) ''GOAGAIN_SIGNAL''
       = environ (env_world []) ''GOAGAIN_SIGNAL''"
proof -
  have d: "ForkExec globalsD sys0 tcp0 (env_world [])
           = (Return None, snd (ForkExec globalsD sys0 tcp0 (env_world [])))"
    by (simp add: ForkExec_run0)
  have z: "ForkExec globals0 sys0 tcp0 (env_world [])
           = (Return None, snd (ForkExec globals0 sys0 tcp0 (env_world [])))"
    by (simp add: ForkExec_run0)
  have b: "forkExec False sys0 tcp0 SIGUSR2 (env_world [])
           = (Return (Some 101, None), snd (forkExec False sys0 tcp0 SIGUSR2 (env_world [])))"
    by (simp add: forkExec_run0)
  have sd: "Strategy globalsD = Double" and sz: "Strategy globals0 = Single"
    by (simp_all add: globalsD_def globals0_def)
  show ?thesis
    using handshake_signal_by_Strategy [where g = globalsD and s = sys0 and l = tcp0
        and w = "env_world []" and w' = "snd (ForkExec globalsD sys0 tcp0 (env_world []))"] d sd
      handshake_signal_by_Strategy [where g = globals0 and s = sys0 and l = tcp0
        and w = "env_world []" and w' = "snd (ForkExec globals0 sys0 tcp0 (env_world []))"
        and lg = False and q = SIGUSR2 and r = "Return (Some 101, None)"
        and w'' = "snd (forkExec False sys0 tcp0 SIGUSR2 (env_world []))"] z sz b
    by simp
qed

text \<open>Claim C3 as it is stated fails on the second generation: a successful \<open>forkExec\<close>
  from an environment without the handshake-signal field leaves the field unset.\<close>

theorem forkExec_no_signal_counterexample:
  "fst (forkExec False sys0 tcp0 SIGUSR2 (env_world [])) = Return (Some 101, None)
   \<and> environ (snd (forkExec False sys0 tcp0 SIGUSR2 (env_world []))) ''GOAGAIN_SIGNAL'' = None"
  by (simp add: forkExec_run0)

text \<open>
  Claim C9, as amended. A successful fork-exec writes each of the fields \<open>GOAGAIN_FD\<close>
  (the number of the duplicated descriptor), \<open>GOAGAIN_NAME\<close> (the name of the listener),
  \<open>GOAGAIN_PPID\<close> (the pid of the caller) and, in the first generation, \<open>GOAGAIN_SIGNAL\<close>
  once, and the successor-pid field \<open>GOAGAIN_PID\<close> twice: it is set to the empty string
  before \<open>os.StartProcess\<close> and to the pid of the child after it. These are all the
  events of the call but the log line, in this order, and the environment after the
  call is the one before it with these five (four) fields. A failure before anything
  is encoded (the executable is not found, no working directory, a listener of another
  type, no duplicate of the descriptor) leaves the state of the process as it was.
  When \<open>os.StartProcess\<close> fails, the call returns that error, and the fields written
  before it stay written, the successor-pid field empty: the environment is not
  restored.
\<close>

theorem fork_exec_envelope_writes:
  "(ForkExec g s l w = (Return None, w') \<longrightarrow>
      (\<exists>exe wd fd files p.
          lookPath s = Return (Inr exe) \<and> Getwd s = Inr wd \<and> File s l = Inr fd
          \<and> fileTable fd = Return files \<and> StartProcess s = Inr p
          \<and> new_trace w w'
              = [Setenv_ev ''GOAGAIN_FD'' (Sprint_nat (unat fd)),
                 Setenv_ev ''GOAGAIN_NAME'' (fdName (Addr_of l)),
                 Setenv_ev ''GOAGAIN_PID'' [],
                 Setenv_ev ''GOAGAIN_PPID'' (Sprint_int (Getpid s)),
                 Setenv_ev ''GOAGAIN_SIGNAL''
                   (Sprint_int (if Double = Strategy g then SIGUSR2 else SIGQUIT)),
                 StartProcess_ev exe wd files]
                @ (if Logger g then [Log_ev [LStr ''spawned child'', LInt p]] else [])
                @ [Setenv_ev ''GOAGAIN_PID'' (Sprint_int p)]
          \<and> environ w' = (environ w)
                (''GOAGAIN_FD'' \<mapsto> Sprint_nat (unat fd),
                 ''GOAGAIN_NAME'' \<mapsto> fdName (Addr_of l),
                 ''GOAGAIN_PPID'' \<mapsto> Sprint_int (Getpid s),
                 ''GOAGAIN_SIGNAL'' \<mapsto>
                   Sprint_int (if Double = Strategy g then SIGUSR2 else SIGQUIT),
                 ''GOAGAIN_PID'' \<mapsto> Sprint_int p))
      \<and> setenv_keys (new_trace w w')
          = [''GOAGAIN_FD'', ''GOAGAIN_NAME'', ''GOAGAIN_PID'', ''GOAGAIN_PPID'',
             ''GOAGAIN_SIGNAL'', ''GOAGAIN_PID''])
   \<and> (forkExec lg s l q w = (Return (cp, None), w'') \<longrightarrow>
        (\<exists>exe wd fd files p.
            cp = Some p
            \<and> lookPath s = Return (Inr exe) \<and> Getwd s = Inr wd \<and> File s l = Inr fd
            \<and> fileTable fd = Return files \<and> StartProcess s = Inr p
            \<and> new_trace w w''
                = [Setenv_ev ''GOAGAIN_FD'' (Sprint_nat (unat fd)),
                   Setenv_ev ''GOAGAIN_NAME'' (fdName (Addr_of l)),
                   Setenv_ev ''GOAGAIN_PID'' [],
                   Setenv_ev ''GOAGAIN_PPID'' (Sprint_int (Getpid s)),
                   StartProcess_ev exe wd files]
                  @ (if lg then [Log_ev [LStr ''spawned child'', LInt p]] else [])
                  @ [Setenv_ev ''GOAGAIN_PID'' (Sprint_int p)]
            \<and> environ w'' = (environ w)
                  (''GOAGAIN_FD'' \<mapsto> Sprint_nat (unat fd),
                   ''GOAGAIN_NAME'' \<mapsto> fdName (Addr_of l),
                   ''GOAGAIN_PPID'' \<mapsto> Sprint_int (Getpid s),
                   ''GOAGAIN_PID'' \<mapsto> Sprint_int p))
        \<and> setenv_keys (new_trace w w'')
            = [''GOAGAIN_FD'', ''GOAGAIN_NAME'', ''GOAGAIN_PID'', ''GOAGAIN_PPID'',
               ''GOAGAIN_PID''])
   \<and> (lookPath s = Return (Inl e) \<or> Getwd s = Inl e \<or> (\<exists>t a. l = OtherListener t a)
          \<or> File s l = Inl e \<longrightarrow>
        snd (ForkExec g s l w) = w \<and> snd (forkExec lg s l q w) = w)
   \<and> (lookPath s = Return (Inr exe) \<and> Getwd s = Inr wd \<and> setEnvs s l w = (Inr fd, w1)
          \<and> fileTable fd = Return files \<and> StartProcess s = Inl e \<longrightarrow>
        fst (ForkExec g s l w) = Return (Some e)
        \<and> new_trace w (snd (ForkExec g s l w))
            = [Setenv_ev ''GOAGAIN_FD'' (Sprint_nat (unat fd)),
               Setenv_ev ''GOAGAIN_NAME'' (fdName (Addr_of l)),
               Setenv_ev ''GOAGAIN_PID'' [],
               Setenv_ev ''GOAGAIN_PPID'' (Sprint_int (Getpid s)),
               Setenv_ev ''GOAGAIN_SIGNAL''
                 (Sprint_int (if Double = Strategy g then SIGUSR2 else SIGQUIT)),
               StartProcess_ev exe wd files]
        \<and> environ (snd (ForkExec g s l w)) = (environ w)
              (''GOAGAIN_FD'' \<mapsto> Sprint_nat (unat fd),
               ''GOAGAIN_NAME'' \<mapsto> fdName (Addr_of l),
               ''GOAGAIN_PID'' \<mapsto> [],
               ''GOAGAIN_PPID'' \<mapsto> Sprint_int (Getpid s),
               ''GOAGAIN_SIGNAL'' \<mapsto>
                 Sprint_int (if Double = Strategy g then SIGUSR2 else SIGQUIT))
        \<and> fst (forkExec lg s l q w) = Return (None, Some e)
        \<and> new_trace w (snd (forkExec lg s l q w))
            = [Setenv_ev ''GOAGAIN_FD'' (Sprint_nat (unat fd)),
               Setenv_ev ''GOAGAIN_NAME'' (fdName (Addr_of l)),
               Setenv_ev ''GOAGAIN_PID'' [],
               Setenv_ev ''GOAGAIN_PPID'' (Sprint_int (Getpid s)),
               StartProcess_ev exe wd files]
        \<and> environ (snd (forkExec lg s l q w)) = (environ w)
              (''GOAGAIN_FD'' \<mapsto> Sprint_nat (unat fd),
               ''GOAGAIN_NAME'' \<mapsto> fdName (Addr_of l),
               ''GOAGAIN_PID'' \<mapsto> [],
               ''GOAGAIN_PPID'' \<mapsto> Sprint_int (Getpid s)))"
proof (intro conjI impI)
  assume a: "ForkExec g s l w = (Return None, w')"
  from ForkExec_written [OF a] obtain exe wd fd files p where
    h: "lookPath s = Return (Inr exe)" "Getwd s = Inr wd" "File s l = Inr fd"
       "fileTable fd = Return files" "StartProcess s = Inr p"
    and t: "trace w' = trace w @
            [Setenv_ev ''GOAGAIN_FD'' (Sprint_nat (unat fd)),
             Setenv_ev ''GOAGAIN_NAME'' (fdName (Addr_of l)),
             Setenv_ev ''GOAGAIN_PID'' [],
             Setenv_ev ''GOAGAIN_PPID'' (Sprint_int (Getpid s)),
             Setenv_ev ''GOAGAIN_SIGNAL'' (Sprint_int (if Double = Strategy g then SIGUSR2 else SIGQUIT)),
             StartProcess_ev exe wd files]
            @ (if Logger g then [Log_ev [LStr ''spawned child'', LInt p]] else [])
            @ [Setenv_ev ''GOAGAIN_PID'' (Sprint_int p)]"
    and e: "environ w' = (environ w)
           (''GOAGAIN_FD'' \<mapsto> Sprint_nat (unat fd),
            ''GOAGAIN_NAME'' \<mapsto> fdName (Addr_of l),
            ''GOAGAIN_PPID'' \<mapsto> Sprint_int (Getpid s),
            ''GOAGAIN_SIGNAL'' \<mapsto> Sprint_int (if Double = Strategy g then SIGUSR2 else SIGQUIT),
            ''GOAGAIN_PID'' \<mapsto> Sprint_int p)"
    by (elim exE conjE) (rule that; assumption)
  from t have n: "new_trace w w' =
            [Setenv_ev ''GOAGAIN_FD'' (Sprint_nat (unat fd)),
             Setenv_ev ''GOAGAIN_NAME'' (fdName (Addr_of l)),
             Setenv_ev ''GOAGAIN_PID'' [],
             Setenv_ev ''GOAGAIN_PPID'' (Sprint_int (Getpid s)),
             Setenv_ev ''GOAGAIN_SIGNAL'' (Sprint_int (if Double = Strategy g then SIGUSR2 else SIGQUIT)),
             StartProcess_ev exe wd files]
            @ (if Logger g then [Log_ev [LStr ''spawned child'', LInt p]] else [])
            @ [Setenv_ev ''GOAGAIN_PID'' (Sprint_int p)]"
    by (simp add: new_trace_def)
  from h n e show "\<exists>exe wd fd files p.
          lookPath s = Return (Inr exe) \<and> Getwd s = Inr wd \<and> File s l = Inr fd
          \<and> fileTable fd = Return files \<and> StartProcess s = Inr p
          \<and> new_trace w w'
              = [Setenv_ev ''GOAGAIN_FD'' (Sprint_nat (unat fd)),
                 Setenv_ev ''GOAGAIN_NAME'' (fdName (Addr_of l)),
                 Setenv_ev ''GOAGAIN_PID'' [],
                 Setenv_ev ''GOAGAIN_PPID'' (Sprint_int (Getpid s)),
                 Setenv_ev ''GOAGAIN_SIGNAL''
                   (Sprint_int (if Double = Strategy g then SIGUSR2 else SIGQUIT)),
                 StartProcess_ev exe wd files]
                @ (if Logger g then [Log_ev [LStr ''spawned child'', LInt p]] else [])
                @ [Setenv_ev ''GOAGAIN_PID'' (Sprint_int p)]
          \<and> environ w' = (environ w)
                (''GOAGAIN_FD'' \<mapsto> Sprint_nat (unat fd),
                 ''GOAGAIN_NAME'' \<mapsto> fdName (Addr_of l),
                 ''GOAGAIN_PPID'' \<mapsto> Sprint_int (Getpid s),
                 ''GOAGAIN_SIGNAL'' \<mapsto>
                   Sprint_int (if Double = Strategy g then SIGUSR2 else SIGQUIT),
                 ''GOAGAIN_PID'' \<mapsto> Sprint_int p)"
    by blast
  from n show "setenv_keys (new_trace w w')
          = [''GOAGAIN_FD'', ''GOAGAIN_NAME'', ''GOAGAIN_PID'', ''GOAGAIN_PPID'',
             ''GOAGAIN_SIGNAL'', ''GOAGAIN_PID'']"
    by simp
next
  assume a: "forkExec lg s l q w = (Return (cp, None), w'')"
  from forkExec_written [OF a] obtain exe wd fd files p where
    h: "cp = Some p" "lookPath s = Return (Inr exe)" "Getwd s = Inr wd" "File s l = Inr fd"
       "fileTable fd = Return files" "StartProcess s = Inr p"
    and t: "trace w'' = trace w @
            [Setenv_ev ''GOAGAIN_FD'' (Sprint_nat (unat fd)),
             Setenv_ev ''GOAGAIN_NAME'' (fdName (Addr_of l)),
             Setenv_ev ''GOAGAIN_PID'' [],
             Setenv_ev ''GOAGAIN_PPID'' (Sprint_int (Getpid s)),
             StartProcess_ev exe wd files]
            @ (if lg then [Log_ev [LStr ''spawned child'', LInt p]] else [])
            @ [Setenv_ev ''GOAGAIN_PID'' (Sprint_int p)]"
    and e: "environ w'' = (environ w)
           (''GOAGAIN_FD'' \<mapsto> Sprint_nat (unat fd),
            ''GOAGAIN_NAME'' \<mapsto> fdName (Addr_of l),
            ''GOAGAIN_PPID'' \<mapsto> Sprint_int (Getpid s),
            ''GOAGAIN_PID'' \<mapsto> Sprint_int p)"
    by (elim exE conjE) (rule that; assumption)
  from t have n: "new_trace w w'' =
            [Setenv_ev ''GOAGAIN_FD'' (Sprint_nat (unat fd)),
             Setenv_ev ''GOAGAIN_NAME'' (fdName (Addr_of l)),
             Setenv_ev ''GOAGAIN_PID'' [],
             Setenv_ev ''GOAGAIN_PPID'' (Sprint_int (Getpid s)),
             StartProcess_ev exe wd files]
            @ (if lg then [Log_ev [LStr ''spawned child'', LInt p]] else [])
            @ [Setenv_ev ''GOAGAIN_PID'' (Sprint_int p)]"
    by (simp add: new_trace_def)
  from h n e show "\<exists>exe wd fd files p.
            cp = Some p
            \<and> lookPath s = Return (Inr exe) \<and> Getwd s = Inr wd \<and> File s l = Inr fd
            \<and> fileTable fd = Return files \<and> StartProcess s = Inr p
            \<and> new_trace w w''
                = [Setenv_ev ''GOAGAIN_FD'' (Sprint_nat (unat fd)),
                   Setenv_ev ''GOAGAIN_NAME'' (fdName (Addr_of l)),
                   Setenv_ev ''GOAGAIN_PID'' [],
                   Setenv_ev ''GOAGAIN_PPID'' (Sprint_int (Getpid s)),
                   StartProcess_ev exe wd files]
                  @ (if lg then [Log_ev [LStr ''spawned child'', LInt p]] else [])
                  @ [Setenv_ev ''GOAGAIN_PID'' (Sprint_int p)]
            \<and> environ w'' = (environ w)
                  (''GOAGAIN_FD'' \<mapsto> Sprint_nat (unat fd),
                   ''GOAGAIN_NAME'' \<mapsto> fdName (Addr_of l),
                   ''GOAGAIN_PPID'' \<mapsto> Sprint_int (Getpid s),
                   ''GOAGAIN_PID'' \<mapsto> Sprint_int p)"
    by blast
  from n show "setenv_keys (new_trace w w'')
            = [''GOAGAIN_FD'', ''GOAGAIN_NAME'', ''GOAGAIN_PID'', ''GOAGAIN_PPID'',
               ''GOAGAIN_PID'']"
    by simp
next
  assume a: "lookPath s = Return (Inl e) \<or> Getwd s = Inl e \<or> (\<exists>t a. l = OtherListener t a)
          \<or> File s l = Inl e"
  from ForkExec_early [OF a] show "snd (ForkExec g s l w) = w" .
  from forkExec_early [OF a] show "snd (forkExec lg s l q w) = w" .
next
  assume a: "lookPath s = Return (Inr exe) \<and> Getwd s = Inr wd \<and> setEnvs s l w = (Inr fd, w1)
          \<and> fileTable fd = Return files \<and> StartProcess s = Inl e"
  then have h: "lookPath s = Return (Inr exe)" "Getwd s = Inr wd" "setEnvs s l w = (Inr fd, w1)"
    "fileTable fd = Return files" "StartProcess s = Inl e"
    by simp_all
  from ForkExec_StartProcess_fails_state [OF h]
  show "fst (ForkExec g s l w) = Return (Some e)"
    and "new_trace w (snd (ForkExec g s l w))
            = [Setenv_ev ''GOAGAIN_FD'' (Sprint_nat (unat fd)),
               Setenv_ev ''GOAGAIN_NAME'' (fdName (Addr_of l)),
               Setenv_ev ''GOAGAIN_PID'' [],
               Setenv_ev ''GOAGAIN_PPID'' (Sprint_int (Getpid s)),
               Setenv_ev ''GOAGAIN_SIGNAL''
                 (Sprint_int (if Double = Strategy g then SIGUSR2 else SIGQUIT)),
               StartProcess_ev exe wd files]"
    and "environ (snd (ForkExec g s l w)) = (environ w)
              (''GOAGAIN_FD'' \<mapsto> Sprint_nat (unat fd),
               ''GOAGAIN_NAME'' \<mapsto> fdName (Addr_of l),
               ''GOAGAIN_PID'' \<mapsto> [],
               ''GOAGAIN_PPID'' \<mapsto> Sprint_int (Getpid s),
               ''GOAGAIN_SIGNAL'' \<mapsto>
                 Sprint_int (if Double = Strategy g then SIGUSR2 else SIGQUIT))"
    by simp_all
  from forkExec_StartProcess_fails_state [OF h]
  show "fst (forkExec lg s l q w) = Return (None, Some e)"
    and "new_trace w (snd (forkExec lg s l q w))
            = [Setenv_ev ''GOAGAIN_FD'' (Sprint_nat (unat fd)),
               Setenv_ev ''GOAGAIN_NAME'' (fdName (Addr_of l)),
               Setenv_ev ''GOAGAIN_PID'' [],
               Setenv_ev ''GOAGAIN_PPID'' (Sprint_int (Getpid s)),
               StartProcess_ev exe wd files]"
    and "environ (snd (forkExec lg s l q w)) = (environ w)
              (''GOAGAIN_FD'' \<mapsto> Sprint_nat (unat fd),
               ''GOAGAIN_NAME'' \<mapsto> fdName (Addr_of l),
               ''GOAGAIN_PID'' \<mapsto> [],
               ''GOAGAIN_PPID'' \<mapsto> Sprint_int (Getpid s))"
    by simp_all
qed


theorem fork_exec_envelope_writes_witness:
  "new_trace (env_world []) (snd (ForkExec globals0 sys0 tcp0 (env_world [])))
     = [Setenv_ev ''GOAGAIN_FD'' ''7'', Setenv_ev ''GOAGAIN_NAME'' ''tcp:127.0.0.1:48879->'',
        Setenv_ev ''GOAGAIN_PID'' [], Setenv_ev ''GOAGAIN_PPID'' ''100'',
        Setenv_ev ''GOAGAIN_SIGNAL'' ''3'', StartProcess_ev ''/srv/server'' ''/srv'' files7,
        Setenv_ev ''GOAGAIN_PID'' ''101'']
   \<and> environ (snd (ForkExec globals0 sys0 tcp0 (env_world []))) ''GOAGAIN_PID'' = Some ''101''
   \<and> new_trace (env_world []) (snd (forkExec False sys0 tcp0 SIGUSR2 (env_world [])))
     = [Setenv_ev ''GOAGAIN_FD'' ''7'', Setenv_ev ''GOAGAIN_NAME'' ''tcp:127.0.0.1:48879->'',
        Setenv_ev ''GOAGAIN_PID'' [], Setenv_ev ''GOAGAIN_PPID'' ''100'',
        StartProcess_ev ''/srv/server'' ''/srv'' files7, Setenv_ev ''GOAGAIN_PID'' ''101'']
   \<and> environ (snd (forkExec False sys0 tcp0 SIGUSR2 (env_world []))) ''GOAGAIN_PID'' = Some ''101''
   \<and> snd (ForkExec globals0 sys0 tls0 (env_world [])) = env_world []
   \<and> snd (forkExec False sys0 tls0 SIGUSR2 (env_world [])) = env_world []
   \<and> fst (ForkExec globals0 sys_nostart tcp0 (env_world []))
       = Return (Some (OSError ''fork/exec /srv/server: resource temporarily unavailable''))
   \<and> new_trace (env_world []) (snd (ForkExec globals0 sys_nostart tcp0 (env_world [])))
     = [Setenv_ev ''GOAGAIN_FD'' ''7'', Setenv_ev ''GOAGAIN_NAME'' ''tcp:127.0.0.1:48879->'',
        Setenv_ev ''GOAGAIN_PID'' [], Setenv_ev ''GOAGAIN_PPID'' ''100'',
        Setenv_ev ''GOAGAIN_SIGNAL'' ''3'', StartProcess_ev ''/srv/server'' ''/srv'' files7]
   \<and> environ (snd (ForkExec globals0 sys_nostart tcp0 (env_world []))) ''GOAGAIN_PID'' = Some []
   \<and> environ (snd (ForkExec globals0 sys_nostart tcp0 (env_world []))) ''GOAGAIN_FD'' = Some ''7''
   \<and> fst (forkExec False sys_nostart tcp0 SIGUSR2 (env_world []))
       = Return (None, Some (OSError ''fork/exec /srv/server: resource temporarily unavailable''))
   \<and> new_trace (env_world []) (snd (forkExec False sys_nostart tcp0 SIGUSR2 (env_world [])))
     = [Setenv_ev ''GOAGAIN_FD'' ''7'', Setenv_ev ''GOAGAIN_NAME'' ''tcp:127.0.0.1:48879->'',
        Setenv_ev ''GOAGAIN_PID'' [], Setenv_ev ''GOAGAIN_PPID'' ''100'',
        StartProcess_ev ''/srv/server'' ''/srv'' files7]
   \<and> environ (snd (forkExec False sys_nostart tcp0 SIGUSR2 (env_world []))) ''GOAGAIN_PID'' = Some []"
proof -
  let ?w = "env_world []"
  let ?err = "OSError ''fork/exec /srv/server: resource temporarily unavailable''"
  have v: "Sprint_nat (unat (7 :: 64 word)) = ''7''" "Sprint_nat 7 = ''7''"
    "Sprint_int (Getpid sys0) = ''100''"
    "Sprint_int (Getpid sys_nostart) = ''100''"
    "Sprint_int (if Double = Strategy globals0 then SIGUSR2 else SIGQUIT) = ''3''"
    "Logger globals0 = False" "Sprint_int 101 = ''101''"
    by (simp_all add: Sprint_nat_small decimalDigits_def sys0_def sys_nostart_def globals0_def
        signal_defs Sprint_int_values)
  have o: "Getwd sys0 = Inr ''/srv''" "File sys0 tcp0 = Inr 7" "StartProcess sys0 = Inr 101"
    by (simp_all add: sys0_def)
  have a: "ForkExec globals0 sys0 tcp0 ?w = (Return None, snd (ForkExec globals0 sys0 tcp0 ?w))"
    by (simp add: ForkExec_run0)
  have b: "forkExec False sys0 tcp0 SIGUSR2 ?w
           = (Return (Some 101, None), snd (forkExec False sys0 tcp0 SIGUSR2 ?w))"
    by (simp add: forkExec_run0)
  have c: "\<exists>t a. tls0 = OtherListener t a" by (simp add: tls0_def)
  have f: "File sys_nostart tcp0 = Inr 7" by (simp add: sys0_def sys_nostart_def)
  have d: "lookPath sys_nostart = Return (Inr ''/srv/server'') \<and> Getwd sys_nostart = Inr ''/srv''
      \<and> setEnvs sys_nostart tcp0 ?w = (Inr 7, snd (setEnvs sys_nostart tcp0 ?w))
      \<and> fileTable 7 = Return files7
      \<and> StartProcess sys_nostart = Inl ?err"
  proof -
    have "setEnvs sys_nostart tcp0 ?w = (Inr 7, snd (setEnvs sys_nostart tcp0 ?w))"
      by (simp add: setEnvs_run0 [OF f])
    moreover have "lookPath sys_nostart = Return (Inr ''/srv/server'')"
      "Getwd sys_nostart = Inr ''/srv''"
      "StartProcess sys_nostart = Inl ?err"
      by (simp_all add: sys0_def sys_nostart_def lookPath_def)
    ultimately show ?thesis
      by (simp add: fileTable_7 files7_def)
  qed
  have A: "new_trace ?w (snd (ForkExec globals0 sys0 tcp0 ?w))
     = [Setenv_ev ''GOAGAIN_FD'' ''7'', Setenv_ev ''GOAGAIN_NAME'' ''tcp:127.0.0.1:48879->'',
        Setenv_ev ''GOAGAIN_PID'' [], Setenv_ev ''GOAGAIN_PPID'' ''100'',
        Setenv_ev ''GOAGAIN_SIGNAL'' ''3'', StartProcess_ev ''/srv/server'' ''/srv'' files7,
        Setenv_ev ''GOAGAIN_PID'' ''101'']
     \<and> environ (snd (ForkExec globals0 sys0 tcp0 ?w)) ''GOAGAIN_PID'' = Some ''101''"
    using fork_exec_envelope_writes [where g = globals0 and s = sys0 and l = tcp0 and w = ?w
        and w' = "snd (ForkExec globals0 sys0 tcp0 ?w)", THEN conjunct1, THEN mp, OF a,
        THEN conjunct1]
    by (auto simp: lookPath_sys0 o fileTable_7 files7_def v tcp0_name)
  have B: "new_trace ?w (snd (forkExec False sys0 tcp0 SIGUSR2 ?w))
     = [Setenv_ev ''GOAGAIN_FD'' ''7'', Setenv_ev ''GOAGAIN_NAME'' ''tcp:127.0.0.1:48879->'',
        Setenv_ev ''GOAGAIN_PID'' [], Setenv_ev ''GOAGAIN_PPID'' ''100'',
        StartProcess_ev ''/srv/server'' ''/srv'' files7, Setenv_ev ''GOAGAIN_PID'' ''101'']
     \<and> environ (snd (forkExec False sys0 tcp0 SIGUSR2 ?w)) ''GOAGAIN_PID'' = Some ''101''"
    using fork_exec_envelope_writes [where s = sys0 and l = tcp0 and w = ?w and lg = False
        and q = SIGUSR2 and cp = "Some 101"
        and w'' = "snd (forkExec False sys0 tcp0 SIGUSR2 ?w)", THEN conjunct2, THEN conjunct1,
        THEN mp, OF b, THEN conjunct1]
    by (auto simp: lookPath_sys0 o fileTable_7 files7_def v tcp0_name)
  have C: "snd (ForkExec globals0 sys0 tls0 ?w) = ?w \<and> snd (forkExec False sys0 tls0 SIGUSR2 ?w) = ?w"
    using fork_exec_envelope_writes [where g = globals0 and s = sys0 and l = tls0 and w = ?w
        and lg = False and q = SIGUSR2] c
    by simp
  have D: "fst (ForkExec globals0 sys_nostart tcp0 ?w) = Return (Some ?err)
     \<and> new_trace ?w (snd (ForkExec globals0 sys_nostart tcp0 ?w))
       = [Setenv_ev ''GOAGAIN_FD'' ''7'', Setenv_ev ''GOAGAIN_NAME'' ''tcp:127.0.0.1:48879->'',
          Setenv_ev ''GOAGAIN_PID'' [], Setenv_ev ''GOAGAIN_PPID'' ''100'',
          Setenv_ev ''GOAGAIN_SIGNAL'' ''3'', StartProcess_ev ''/srv/server'' ''/srv'' files7]
     \<and> environ (snd (ForkExec globals0 sys_nostart tcp0 ?w)) ''GOAGAIN_PID'' = Some []
     \<and> environ (snd (ForkExec globals0 sys_nostart tcp0 ?w)) ''GOAGAIN_FD'' = Some ''7''
     \<and> fst (forkExec False sys_nostart tcp0 SIGUSR2 ?w) = Return (None, Some ?err)
     \<and> new_trace ?w (snd (forkExec False sys_nostart tcp0 SIGUSR2 ?w))
       = [Setenv_ev ''GOAGAIN_FD'' ''7'', Setenv_ev ''GOAGAIN_NAME'' ''tcp:127.0.0.1:48879->'',
          Setenv_ev ''GOAGAIN_PID'' [], Setenv_ev ''GOAGAIN_PPID'' ''100'',
          StartProcess_ev ''/srv/server'' ''/srv'' files7]
     \<and> environ (snd (forkExec False sys_nostart tcp0 SIGUSR2 ?w)) ''GOAGAIN_PID'' = Some []"
    using fork_exec_envelope_writes [where g = globals0 and s = sys_nostart and l = tcp0
        and w = ?w and lg = False and q = SIGUSR2 and exe = "''/srv/server''" and wd = "''/srv''"
        and fd = 7 and ?w1.0 = "snd (setEnvs sys_nostart tcp0 ?w)" and files = files7
        and e = ?err, THEN conjunct2, THEN conjunct2, THEN conjunct2, THEN mp, OF d]
    by (simp add: v tcp0_name)
  from A B C D show ?thesis by simp
qed

text \<open>Claim C9 as it is stated fails: when \<open>os.StartProcess\<close> fails, \<open>ForkExec\<close> returns
  the error and \<open>GOAGAIN_FD\<close>, unset before the call, is set after it; and a successful
  \<open>ForkExec\<close> writes \<open>GOAGAIN_PID\<close> twice.\<close>

theorem ForkExec_not_atomic_counterexample:
  "fst (ForkExec globals0 sys_nostart tcp0 (env_world []))
     = Return (Some (OSError ''fork/exec /srv/server: resource temporarily unavailable''))
   \<and> environ (env_world []) ''GOAGAIN_FD'' = None
   \<and> environ (snd (ForkExec globals0 sys_nostart tcp0 (env_world []))) ''GOAGAIN_FD'' = Some ''7''
   \<and> fst (ForkExec globals0 sys0 tcp0 (env_world [])) = Return None
   \<and> count_list (setenv_keys (trace (snd (ForkExec globals0 sys0 tcp0 (env_world [])))))
        ''GOAGAIN_PID'' = 2"
proof -
  have g: "Logger globals0 = False" "Strategy globals0 = Single"
    by (simp_all add: globals0_def)
  have e: "environ (env_world []) ''GOAGAIN_FD'' = None"
    by (simp add: env_world_def)
  show ?thesis
    by (simp add: ForkExec_run_nostart ForkExec_run0 g e)
qed

subsection \<open>\<open>Exec\<close>: the guard against a re-exec by a child\<close>

text \<open>The guard of \<open>Exec\<close> compares the parent pid with what \<open>GOAGAIN_PID\<close> scans to (0
  when the scan fails); when they are equal, \<open>Exec\<close> returns the error and changes
  nothing.\<close>

lemma Exec_guard:
  "Getppid s = (case Sscan_int (Getenv ''GOAGAIN_PID'' w) of Inl e \<Rightarrow> 0 | Inr p \<Rightarrow> p) \<Longrightarrow>
   Exec g s l w = (Exec_returns CalledByChild, w)"
  by (simp add: Exec_def)

text \<open>
  Claim C2 on the code. A successor started by \<open>ForkExec\<close> of pid 100 has
  \<open>GOAGAIN_PPID = 100\<close>, an empty \<open>GOAGAIN_PID\<close>, and the parent pid 100: its parent pid
  is the recorded predecessor-pid. \<open>Exec\<close> in that process is not refused: it goes on
  to \<open>syscall.Exec\<close> and the image is replaced.
\<close>

theorem Exec_in_child_not_refused:
  "Getppid sys_child = 100
   \<and> Sscan_int (Getenv ''GOAGAIN_PPID'' child_world) = Inr 100
   \<and> Getenv ''GOAGAIN_PID'' child_world = []
   \<and> fst (Exec globals0 sys_child tcp0 child_world) = Image_replaced
   \<and> last (trace (snd (Exec globals0 sys_child tcp0 child_world))) = Exec_ev ''/srv/server''"
proof -
  have v: "\<exists>a. tcp0 = TCPListener a \<or> tcp0 = UnixListener a" by (simp add: tcp0_def)
  have o: "Getppid sys_child = 100" "File sys_child tcp0 = Inr 7" "syscall_Exec sys_child = None"
    "lookPath sys_child = Return (Inr ''/srv/server'')"
    by (simp_all add: sys_child_def sys0_def lookPath_def)
  have g: "Getenv ''GOAGAIN_PID'' child_world = []"
    "Sscan_int (Getenv ''GOAGAIN_PPID'' child_world) = Inr 100"
    by (simp_all add: child_world_def Getenv_env_world scan_100)
  have n: "CHR 0x00 \<notin> set (fdName (Addr_of tcp0))" by (simp add: tcp0_name)
  show ?thesis
    by (simp add: Exec_def o g Sscan_int_empty setEnvs_success [OF v o(2) n] Setenv_int
        logln_def globals0_def emit_def)
qed

subsection \<open>The bounded wait\<close>

lemma killChild_trace:
  "trace (killChild lg s msg p w)
     = trace w @ ProcessKill_ev p
         # (case Process_Kill s p of None \<Rightarrow> []
            | Some kErr \<Rightarrow> if lg then [Log_ev [LStr msg, LErr kErr]] else [])"
  by (simp add: killChild_def Let_def emit_def logln_def split: option.splits)

text \<open>
  Claim C5. In \<open>Wait\<close> of the second generation, when the fork signal has arrived,
  \<open>forkExec\<close> has started the successor \<open>p\<close> and the timer fires before the quit signal
  of the successor, \<open>Wait\<close> calls \<open>Kill\<close> on the process \<open>p\<close> once and returns the
  timeout error. Whatever \<open>forkExec\<close> did, a run in which the timer fires never returns
  success.
\<close>

theorem Wait_bounded_timeout:
  "(forkSignalArrives r \<and> select r = TimerFired
      \<and> forkExec lg s l q (logln lg [LStr ''Waiting for fork signal from system...''] w)
          = (Return (Some p, None), w1) \<longrightarrow>
      fst (Wait_bounded lg s r l f q w) = Some (Return (Some TimedOut))
      \<and> count_list (new_trace w1 (snd (Wait_bounded lg s r l f q w))) (ProcessKill_ev p) = 1)
   \<and> (select r = TimerFired \<longrightarrow> fst (Wait_bounded lg s r l f q w) \<noteq> Some (Return None))"
proof (intro conjI impI)
  assume a: "forkSignalArrives r \<and> select r = TimerFired
      \<and> forkExec lg s l q (logln lg [LStr ''Waiting for fork signal from system...''] w)
          = (Return (Some p, None), w1)"
  then show "fst (Wait_bounded lg s r l f q w) = Some (Return (Some TimedOut))"
    by (simp add: Wait_bounded_def Let_def)
  from a show "count_list (new_trace w1 (snd (Wait_bounded lg s r l f q w))) (ProcessKill_ev p) = 1"
    by (simp add: Wait_bounded_def Let_def new_trace_def killChild_trace logln_def emit_def
             split: option.splits)
next
  assume "select r = TimerFired"
  then show "fst (Wait_bounded lg s r l f q w) \<noteq> Some (Return None)"
    by (auto simp: Wait_bounded_def Let_def
             split: outcome.splits prod.splits option.splits selected.splits)
qed

theorem Wait_bounded_timeout_witness:
  "fst (Wait_bounded False sys0 run_timeout tcp0 SIGUSR2 SIGQUIT (env_world []))
     = Some (Return (Some TimedOut))
   \<and> count_list (new_trace (snd (forkExec False sys0 tcp0 SIGQUIT (env_world [])))
                  (snd (Wait_bounded False sys0 run_timeout tcp0 SIGUSR2 SIGQUIT (env_world []))))
        (ProcessKill_ev 101) = 1"
proof -
  have a: "forkSignalArrives run_timeout \<and> select run_timeout = TimerFired
      \<and> forkExec False sys0 tcp0 SIGQUIT
            (logln False [LStr ''Waiting for fork signal from system...''] (env_world []))
          = (Return (Some 101, None), snd (forkExec False sys0 tcp0 SIGQUIT (env_world [])))"
    by (simp add: run_timeout_def logln_def forkExec_run0)
  show ?thesis
    using Wait_bounded_timeout [where r = run_timeout and lg = False and s = sys0 and l = tcp0
        and q = SIGQUIT and w = "env_world []" and p = 101 and f = SIGUSR2
        and ?w1.0 = "snd (forkExec False sys0 tcp0 SIGQUIT (env_world []))"] a
    by simp
qed

subsection \<open>The signal loop\<close>

lemma signals_distinct:
  "SIGUSR2 \<noteq> SIGHUP" "SIGUSR2 \<noteq> SIGINT" "SIGUSR2 \<noteq> SIGQUIT" "SIGUSR2 \<noteq> SIGTERM"
  "SIGUSR2 \<noteq> SIGUSR1" "SIGUSR1 \<noteq> SIGHUP" "SIGHUP \<noteq> SIGUSR1" "SIGHUP \<noteq> SIGINT"
  "SIGHUP \<noteq> SIGQUIT" "SIGHUP \<noteq> SIGTERM" "SIGHUP \<noteq> SIGUSR2"
  "SIGUSR1 \<noteq> SIGINT" "SIGUSR1 \<noteq> SIGQUIT" "SIGUSR1 \<noteq> SIGTERM" "SIGUSR1 \<noteq> SIGUSR2"
  by (simp_all add: signal_defs)




lemma callHook_spawns: "spawns (trace (callHook lg name sg hook l w)) = spawns (trace w)"
  by (simp add: callHook_def Let_def emit_def logln_def spawns_def
           split: prod.splits option.splits)


lemma logln_spawns: "spawns (trace (logln lg v w)) = spawns (trace w)"
  by (simp add: logln_def emit_def spawns_def)


text \<open>A signal that neither ends the loop nor triggers a restart.\<close>

lemma Wait_loop_idle_step:
  assumes "sig \<notin> {SIGINT, SIGQUIT, SIGTERM, SIGUSR2}"
  shows "\<exists>w'. (\<forall>sigs. Wait_loop g s l forked (sig # sigs) w = Wait_loop g s l forked sigs w')
              \<and> spawns (trace w') = spawns (trace w)"
proof -
  let ?w0 = "logln (Logger g) [LSig sig] w"
  consider "sig = SIGHUP" | "sig \<noteq> SIGHUP" "sig = SIGUSR1" | "sig \<noteq> SIGHUP" "sig \<noteq> SIGUSR1"
    by blast
  then show ?thesis
  proof cases
    case 1
    then show ?thesis
      by (intro exI [of _ "callHook (Logger g) ''OnSIGHUP:'' SIGHUP (OnSIGHUP g) l ?w0"])
         (simp add: callHook_spawns logln_spawns)
  next
    case 2
    with assms show ?thesis
      by (intro exI [of _ "callHook (Logger g) ''OnSIGUSR1:'' SIGUSR1 (OnSIGUSR1 g) l ?w0"])
         (simp add: callHook_spawns logln_spawns)
  next
    case 3
    with assms show ?thesis
      by (intro exI [of _ ?w0]) (simp add: logln_spawns)
  qed
qed

lemma Wait_loop_idle_prefix:
  "set pre \<inter> {SIGINT, SIGQUIT, SIGTERM, SIGUSR2} = {} \<Longrightarrow>
   fst (Wait_loop g s l forked pre w) = None
   \<and> spawns (trace (snd (Wait_loop g s l forked pre w))) = spawns (trace w)
   \<and> Wait_loop g s l forked (pre @ rest) w
       = Wait_loop g s l forked rest (snd (Wait_loop g s l forked pre w))"
proof (induction pre arbitrary: w)
  case Nil
  then show ?case by simp
next
  case (Cons sig pre)
  then have i: "sig \<notin> {SIGINT, SIGQUIT, SIGTERM, SIGUSR2}"
    and p: "set pre \<inter> {SIGINT, SIGQUIT, SIGTERM, SIGUSR2} = {}"
    by auto
  from Wait_loop_idle_step [OF i, of g s l forked w] obtain w' where
    a: "\<forall>sigs. Wait_loop g s l forked (sig # sigs) w = Wait_loop g s l forked sigs w'"
    and c: "spawns (trace w') = spawns (trace w)"
    by blast
  from Cons.IH [OF p, of w'] a c show ?case by simp
qed

lemma Wait_loop_SIGUSR2_forked:
  "Wait_loop g s l True (SIGUSR2 # rest) w
     = (Some (Return (SIGUSR2, None)), logln (Logger g) [LSig SIGUSR2] w)"
  by (simp add: signals_distinct)

lemma Wait_loop_SIGUSR2_first:
  "Wait_loop g s l False (SIGUSR2 # rest) w
     = (case ForkExec g s l (logln (Logger g) [LSig SIGUSR2] w) of
          (Panic, w1) \<Rightarrow> (Some Panic, w1)
        | (Return (Some err), w1) \<Rightarrow> (Some (Return (SIGUSR2, Some err)), w1)
        | (Return None, w1) \<Rightarrow> Wait_loop g s l True rest w1)"
  by (simp add: signals_distinct)


lemma Wait_idle_globals0:
  "Wait globals0 s l [SIGHUP] w = (None, w)" "Wait globals0 s l [SIGUSR1] w = (None, w)"
  by (simp_all add: Wait_def callHook_def logln_def globals0_def signals_distinct signal_defs)

text \<open>
  Claim C6. Let the loop take signals that neither end it nor trigger a restart
  (\<open>pre\<close>), then \<open>SIGUSR2\<close>. This first \<open>SIGUSR2\<close> calls \<open>ForkExec\<close>; when \<open>ForkExec\<close>
  returns an error, \<open>Wait\<close> returns \<open>SIGUSR2\<close> with that error at once, whatever
  signals follow; when it succeeds, the loop goes on in the state \<open>ForkExec\<close> left,
  and the second \<open>SIGUSR2\<close> (after more signals of the first kind, \<open>mid\<close>) makes
  \<open>Wait\<close> return \<open>SIGUSR2\<close> with no error, and no process is started after the first
  one.
\<close>

theorem Wait_restart_trigger:
  assumes "set pre \<inter> {SIGINT, SIGQUIT, SIGTERM, SIGUSR2} = {}"
    and "set mid \<inter> {SIGINT, SIGQUIT, SIGTERM, SIGUSR2} = {}"
  shows "(ForkExec g s l (logln (Logger g) [LSig SIGUSR2] (snd (Wait g s l pre w)))
            = (Return (Some e), w1) \<longrightarrow>
          Wait g s l (pre @ SIGUSR2 # rest) w = (Some (Return (SIGUSR2, Some e)), w1))
       \<and> (ForkExec g s l (logln (Logger g) [LSig SIGUSR2] (snd (Wait g s l pre w)))
            = (Return None, w1) \<longrightarrow>
          Wait g s l (pre @ [SIGUSR2]) w = (None, w1)
          \<and> fst (Wait g s l (pre @ SIGUSR2 # mid @ SIGUSR2 # rest) w)
              = Some (Return (SIGUSR2, None))
          \<and> spawns (trace (snd (Wait g s l (pre @ SIGUSR2 # mid @ SIGUSR2 # rest) w)))
              = spawns (trace w1))"
proof (intro conjI impI)
  let ?w0 = "snd (Wait_loop g s l False pre w)"
  note p = Wait_loop_idle_prefix [OF assms(1), of g s l False w]
  {
    assume a: "ForkExec g s l (logln (Logger g) [LSig SIGUSR2] (snd (Wait g s l pre w)))
            = (Return (Some e), w1)"
    have "Wait_loop g s l False (pre @ SIGUSR2 # rest) w
          = Wait_loop g s l False (SIGUSR2 # rest) ?w0"
      using p [of "SIGUSR2 # rest"] by (simp del: Wait_loop.simps(2))
    with a show "Wait g s l (pre @ SIGUSR2 # rest) w = (Some (Return (SIGUSR2, Some e)), w1)"
      by (simp add: Wait_def Wait_loop_SIGUSR2_first del: Wait_loop.simps(2))
  }
  {
    assume a: "ForkExec g s l (logln (Logger g) [LSig SIGUSR2] (snd (Wait g s l pre w)))
            = (Return None, w1)"
    have "Wait_loop g s l False (pre @ [SIGUSR2]) w = Wait_loop g s l False [SIGUSR2] ?w0"
      using p [of "[SIGUSR2]"] by (simp del: Wait_loop.simps(2))
    with a show "Wait g s l (pre @ [SIGUSR2]) w = (None, w1)"
      by (simp add: Wait_def Wait_loop_SIGUSR2_first del: Wait_loop.simps(2))
    have "Wait_loop g s l False (pre @ SIGUSR2 # mid @ SIGUSR2 # rest) w
          = Wait_loop g s l False (SIGUSR2 # mid @ SIGUSR2 # rest) ?w0"
      using p [of "SIGUSR2 # mid @ SIGUSR2 # rest"] by (simp del: Wait_loop.simps(2))
    also have "\<dots> = Wait_loop g s l True (mid @ SIGUSR2 # rest) w1"
      using a by (simp add: Wait_def Wait_loop_SIGUSR2_first del: Wait_loop.simps(2))
    also have "\<dots> = Wait_loop g s l True (SIGUSR2 # rest) (snd (Wait_loop g s l True mid w1))"
      using Wait_loop_idle_prefix [OF assms(2), of g s l True w1 "SIGUSR2 # rest"]
      by (simp del: Wait_loop.simps(2))
    finally have r: "Wait_loop g s l False (pre @ SIGUSR2 # mid @ SIGUSR2 # rest) w
       = (Some (Return (SIGUSR2, None)),
          logln (Logger g) [LSig SIGUSR2] (snd (Wait_loop g s l True mid w1)))"
      by (simp add: Wait_loop_SIGUSR2_forked del: Wait_loop.simps(2))
    from r show "fst (Wait g s l (pre @ SIGUSR2 # mid @ SIGUSR2 # rest) w)
              = Some (Return (SIGUSR2, None))"
      by (simp add: Wait_def del: Wait_loop.simps(2))
    from r show "spawns (trace (snd (Wait g s l (pre @ SIGUSR2 # mid @ SIGUSR2 # rest) w)))
              = spawns (trace w1)"
      using Wait_loop_idle_prefix [OF assms(2), of g s l True w1]
      by (simp add: Wait_def logln_spawns del: Wait_loop.simps(2))
  }
qed

text \<open>The theorem on a run whose spawn fails and on a run with two \<open>SIGUSR2\<close>.\<close>

theorem Wait_restart_trigger_witness:
  "Wait globals0 sys_nostart tcp0 [SIGHUP, SIGUSR2, SIGHUP] (env_world [])
     = (Some (Return (SIGUSR2,
               Some (OSError ''fork/exec /srv/server: resource temporarily unavailable''))),
        snd (ForkExec globals0 sys_nostart tcp0 (env_world [])))
   \<and> Wait globals0 sys0 tcp0 [SIGHUP, SIGUSR2] (env_world [])
       = (None, snd (ForkExec globals0 sys0 tcp0 (env_world [])))
   \<and> fst (Wait globals0 sys0 tcp0 [SIGHUP, SIGUSR2, SIGUSR1, SIGUSR2, SIGHUP] (env_world []))
       = Some (Return (SIGUSR2, None))
   \<and> spawns (trace (snd (Wait globals0 sys0 tcp0 [SIGHUP, SIGUSR2, SIGUSR1, SIGUSR2, SIGHUP]
                            (env_world []))))
       = 1"
proof -
  have i: "set [SIGHUP] \<inter> {SIGINT, SIGQUIT, SIGTERM, SIGUSR2} = {}"
    "set [SIGUSR1] \<inter> {SIGINT, SIGQUIT, SIGTERM, SIGUSR2} = {}"
    by (simp_all add: signal_defs)
  have l: "logln (Logger globals0) v w = w" for v and w :: "unit world"
    by (simp add: logln_def globals0_def)
  have a: "ForkExec globals0 sys_nostart tcp0
             (logln (Logger globals0) [LSig SIGUSR2] (snd (Wait globals0 sys_nostart tcp0 [SIGHUP] (env_world []))))
           = (Return (Some (OSError ''fork/exec /srv/server: resource temporarily unavailable'')),
              snd (ForkExec globals0 sys_nostart tcp0 (env_world [])))"
    by (simp add: l Wait_idle_globals0 ForkExec_run_nostart)
  have b: "ForkExec globals0 sys0 tcp0
             (logln (Logger globals0) [LSig SIGUSR2] (snd (Wait globals0 sys0 tcp0 [SIGHUP] (env_world []))))
           = (Return None, snd (ForkExec globals0 sys0 tcp0 (env_world [])))"
    by (simp add: l Wait_idle_globals0 ForkExec_run0)
  have c: "spawns (trace (snd (ForkExec globals0 sys0 tcp0 (env_world [])))) = 1"
    by (simp add: ForkExec_run0 spawns_def globals0_def)
  show ?thesis
    using Wait_restart_trigger [OF i(1) i(2), where g = globals0 and s = sys_nostart and l = tcp0
        and w = "env_world []" and rest = "[SIGHUP]"
        and e = "OSError ''fork/exec /srv/server: resource temporarily unavailable''"
        and ?w1.0 = "snd (ForkExec globals0 sys_nostart tcp0 (env_world []))"] a
      Wait_restart_trigger [OF i(1) i(2), where g = globals0 and s = sys0 and l = tcp0
        and w = "env_world []" and rest = "[SIGHUP]"
        and ?w1.0 = "snd (ForkExec globals0 sys0 tcp0 (env_world []))"] b c
    by simp
qed





end
